theory Spec2Isabelle
  imports Complex_Main "HOL-Library.AList"
begin

section \<open>JavaScript values as the client sees them\<close>

text \<open>
  The client in \<^verbatim>\<open>ar-components-service/src/utils/linkd-api.ts\<close> reads server payloads
  that TypeScript types as \<^verbatim>\<open>any\<close>: what it does with them is decided by JavaScript's
  truthiness, property access and strict equality, so the payloads are modelled as
  JavaScript values. Numbers are rationals (the finite numbers a JSON text can carry;
  the rounding of doubles and NaN are left out). An object is the list of its own
  properties, each key once; only lookups are made on it.
\<close>

datatype jsval =
    Undefined
  | Null
  | Bool bool
  | Num rat
  | Str string
  | Arr "jsval list"
  | Obj "(string \<times> jsval) list"

text \<open>What a \<^verbatim>\<open>try\<close> block of the client can catch.\<close>

record http_response =
  resp_status :: int
  resp_data :: jsval

datatype thrown =
    TypeError
  | SyntaxError
  | AxiosError string "http_response option"
  | OtherThrown jsval

text \<open>\<^verbatim>\<open>!!v\<close>: the falsy values are undefined, null, false, 0 and the empty string.\<close>

fun js_truthy :: "jsval \<Rightarrow> bool" where
  "js_truthy Undefined = False"
| "js_truthy Null = False"
| "js_truthy (Bool b) = b"
| "js_truthy (Num r) = (r \<noteq> 0)"
| "js_truthy (Str s) = (s \<noteq> [])"
| "js_truthy (Arr xs) = True"
| "js_truthy (Obj kvs) = True"

text \<open>\<^verbatim>\<open>a || b\<close> on values (both operands of every use in the client are free of effects).\<close>

definition js_or :: "jsval \<Rightarrow> jsval \<Rightarrow> jsval" where
  "js_or a b = (if js_truthy a then a else b)"

definition obj_get :: "(string \<times> jsval) list \<Rightarrow> string \<Rightarrow> jsval" where
  "obj_get kvs k = (case map_of kvs k of None \<Rightarrow> Undefined | Some v \<Rightarrow> v)"

text \<open>
  \<^verbatim>\<open>v.k\<close> for the property names the client reads (\<^verbatim>\<open>results\<close>, \<^verbatim>\<open>total_count\<close>,
  \<^verbatim>\<open>execution_time\<close>, \<^verbatim>\<open>length\<close>, \<^verbatim>\<open>type\<close>, \<^verbatim>\<open>data\<close>, \<^verbatim>\<open>message\<close>, \<^verbatim>\<open>connections\<close>,
  \<^verbatim>\<open>profile\<close>, \<^verbatim>\<open>success\<close>): reading a property of undefined or null throws a
  TypeError; strings and arrays have a \<^verbatim>\<open>length\<close>; every other read of a primitive
  gives undefined.
\<close>

fun get_prop :: "jsval \<Rightarrow> string \<Rightarrow> thrown + jsval" where
  "get_prop Undefined k = Inl TypeError"
| "get_prop Null k = Inl TypeError"
| "get_prop (Bool b) k = Inr Undefined"
| "get_prop (Num r) k = Inr Undefined"
| "get_prop (Str s) k = Inr (if k = ''length'' then Num (of_nat (length s)) else Undefined)"
| "get_prop (Arr xs) k = Inr (if k = ''length'' then Num (of_nat (length xs)) else Undefined)"
| "get_prop (Obj kvs) k = Inr (obj_get kvs k)"

text \<open>\<^verbatim>\<open>v?.k\<close>: undefined instead of the TypeError.\<close>

definition get_prop_opt :: "jsval \<Rightarrow> string \<Rightarrow> jsval" where
  "get_prop_opt v k = (case get_prop v k of Inl e \<Rightarrow> Undefined | Inr x \<Rightarrow> x)"

text \<open>
  \<^verbatim>\<open>f(...v)\<close>: the elements of an array, the characters of a string; any other value
  the client can receive is not iterable and the spread throws a TypeError.
\<close>

fun js_spread :: "jsval \<Rightarrow> thrown + jsval list" where
  "js_spread (Arr xs) = Inr xs"
| "js_spread (Str s) = Inr (map (\<lambda>c. Str [c]) s)"
| "js_spread v = Inl TypeError"

text \<open>
  \<^verbatim>\<open>ToString(v)\<close>, which a template literal applies to each interpolated value and
  \<^verbatim>\<open>new Error(v)\<close> to its argument, can throw a TypeError. On the values of a parsed JSON
  text it does so for an object with an own property \<^verbatim>\<open>toString\<close> (the property is not
  callable, and the inherited \<^verbatim>\<open>valueOf\<close> returns the object itself), and for an array
  one of whose elements it throws on (\<^verbatim>\<open>join\<close> converts each element but undefined and
  null). An object without an own \<^verbatim>\<open>toString\<close> converts to \<^verbatim>\<open>[object Object]\<close>, every
  primitive converts.
\<close>

fun to_string_throws :: "jsval \<Rightarrow> bool" where
  "to_string_throws Undefined = False"
| "to_string_throws Null = False"
| "to_string_throws (Bool b) = False"
| "to_string_throws (Num r) = False"
| "to_string_throws (Str s) = False"
| "to_string_throws (Arr xs) = list_ex to_string_throws xs"
| "to_string_throws (Obj kvs) = (map_of kvs ''toString'' \<noteq> None)"

section \<open>The console\<close>

text \<open>
  Every \<^verbatim>\<open>console.log\<close>, \<^verbatim>\<open>console.warn\<close> and \<^verbatim>\<open>console.error\<close> call appends one entry.
  An entry keeps the literal parts of the template and the values interpolated into it
  (or passed as further arguments), in order, so that no number formatting is modelled.
  A template literal is evaluated before the call: it throws when the conversion of one
  of its interpolated values throws. Values passed as further arguments are printed by
  inspection, which converts nothing. Interpolated strings and numbers never throw, so
  only templates over server-supplied values go through \<open>template\<close>.
\<close>

datatype level = LOG | WARN | ERROR

datatype piece = Lit string | Val jsval | Caught thrown

type_synonym console = "(level \<times> piece list) list"

fun piece_throws :: "piece \<Rightarrow> bool" where
  "piece_throws (Lit s) = False"
| "piece_throws (Val v) = to_string_throws v"
| "piece_throws (Caught e) = False"

definition template :: "piece list \<Rightarrow> thrown + piece list" where
  "template ps = (if list_ex piece_throws ps then Inl TypeError else Inr ps)"

definition console_log :: "piece list \<Rightarrow> console \<Rightarrow> console" where
  "console_log ps c = c @ [(LOG, ps)]"

definition console_warn :: "piece list \<Rightarrow> console \<Rightarrow> console" where
  "console_warn ps c = c @ [(WARN, ps)]"

definition console_error :: "piece list \<Rightarrow> console \<Rightarrow> console" where
  "console_error ps c = c @ [(ERROR, ps)]"

section \<open>The request/response operations\<close>

record LinkdSearchOptions =
  query :: string
  filters :: "(string \<times> jsval) list option"
  maxResults :: "rat option"
  includeDetails :: "bool option"
  sortBy :: "string option"
  sortOrder :: "string option"

record LinkdIntroRequest =
  fromId :: string
  toId :: string
  intro_message :: string
  intro_context :: string

record LinkdSearchResult =
  sr_profiles :: jsval
  sr_totalCount :: jsval
  sr_queryExecutionTime :: jsval

record LinkdAPI =
  apiKey :: string

definition baseUrl :: string where
  "baseUrl = ''https://api.linkd.network''"

definition timeout_ms :: int where
  "timeout_ms = 30000"

text \<open>The constructor: it keeps the key and warns when the key is the empty string.\<close>

definition new_LinkdAPI :: "string \<Rightarrow> LinkdAPI \<times> console" where
  "new_LinkdAPI key =
     (\<lparr>apiKey = key\<rparr>,
      if key = [] then
        console_warn [Lit ''LinkdAPI initialized without an API key. API calls will likely fail.''] []
      else [])"

text \<open>An optional field of the options, read as a value.\<close>

definition opt_num :: "rat option \<Rightarrow> jsval" where
  "opt_num x = (case x of None \<Rightarrow> Undefined | Some r \<Rightarrow> Num r)"

definition opt_bool :: "bool option \<Rightarrow> jsval" where
  "opt_bool x = (case x of None \<Rightarrow> Undefined | Some b \<Rightarrow> Bool b)"

definition opt_str :: "string option \<Rightarrow> jsval" where
  "opt_str x = (case x of None \<Rightarrow> Undefined | Some s \<Rightarrow> Str s)"

text \<open>
  An object literal is built property by property; a later property with the same key
  replaces the value of the earlier one (\<^verbatim>\<open>...options.filters\<close> comes before \<^verbatim>\<open>limit\<close>
  and \<^verbatim>\<open>include_details\<close> in the request parameters). Spreading undefined adds nothing.
\<close>

definition obj_put :: "string \<Rightarrow> jsval \<Rightarrow> (string \<times> jsval) list \<Rightarrow> (string \<times> jsval) list" where
  "obj_put k v kvs = AList.update k v kvs"

definition obj_spread :: "(string \<times> jsval) list option \<Rightarrow> (string \<times> jsval) list \<Rightarrow> (string \<times> jsval) list" where
  "obj_spread src kvs =
     (case src of None \<Rightarrow> kvs | Some ps \<Rightarrow> foldl (\<lambda>acc (k, v). obj_put k v acc) kvs ps)"

text \<open>\<^verbatim>\<open>limit: options.maxResults || 10\<close> and \<^verbatim>\<open>include_details: options.includeDetails || true\<close>.\<close>

definition limit_of :: "LinkdSearchOptions \<Rightarrow> jsval" where
  "limit_of options = js_or (opt_num (maxResults options)) (Num 10)"

definition include_details_of :: "LinkdSearchOptions \<Rightarrow> jsval" where
  "include_details_of options = js_or (opt_bool (includeDetails options)) (Bool True)"

datatype http_method = GET | POST

record http_request =
  req_method :: http_method
  req_url :: string
  req_params :: "(string \<times> jsval) list"
  req_body :: jsval
  req_headers :: "(string \<times> string) list"
  req_timeout :: int

definition auth_headers :: "LinkdAPI \<Rightarrow> (string \<times> string) list" where
  "auth_headers api =
     [(''Authorization'', ''Bearer '' @ apiKey api), (''Content-Type'', ''application/json'')]"

definition search_params :: "LinkdSearchOptions \<Rightarrow> (string \<times> jsval) list" where
  "search_params options =
     obj_put ''sort_order'' (opt_str (sortOrder options))
       (obj_put ''sort_by'' (opt_str (sortBy options))
         (obj_put ''include_details'' (include_details_of options)
           (obj_put ''limit'' (limit_of options)
             (obj_spread (filters options)
               (obj_put ''query'' (Str (query options)) [])))))"

definition search_request :: "LinkdAPI \<Rightarrow> LinkdSearchOptions \<Rightarrow> http_request" where
  "search_request api options =
     \<lparr>req_method = GET, req_url = baseUrl @ ''/api/search'',
      req_params = search_params options, req_body = Undefined,
      req_headers = auth_headers api, req_timeout = timeout_ms\<rparr>"

text \<open>
  The HTTP library is the environment: a call either throws or returns a response.
  \<^verbatim>\<open>await axios.get(url, config)\<close> is the application of this function to the request.
\<close>

type_synonym http = "http_request \<Rightarrow> thrown + http_response"

text \<open>How an \<^verbatim>\<open>async\<close> method ends.\<close>

datatype 'a settled = Fulfilled 'a | RejectedWith thrown

subsection \<open>handleApiError\<close>

definition response_status :: "http_response option \<Rightarrow> jsval" where
  "response_status r = (case r of None \<Rightarrow> Undefined | Some x \<Rightarrow> Num (of_int (resp_status x)))"

definition response_message :: "http_response option \<Rightarrow> jsval" where
  "response_message r = (case r of None \<Rightarrow> Undefined
     | Some x \<Rightarrow> (if resp_data x = Undefined \<or> resp_data x = Null then Undefined
                 else get_prop_opt (resp_data x) ''message''))"

definition auth_failed_entry :: "level \<times> piece list" where
  "auth_failed_entry = (ERROR, [Lit ''Linkd API authentication failed. Check your API key.''])"

text \<open>\<^verbatim>\<open>axiosError.response?.data?.message || axiosError.message\<close>.\<close>

definition logged_message :: "string \<Rightarrow> http_response option \<Rightarrow> jsval" where
  "logged_message msg response = js_or (response_message response) (Str msg)"

text \<open>
  The method returns nothing; it can throw, when the template of its first log line
  interpolates a message that does not convert to a string. Nothing is logged then.
\<close>

definition handleApiError :: "string \<Rightarrow> thrown \<Rightarrow> console \<Rightarrow> thrown + console" where
  "handleApiError methodName error c =
     (case error of
        AxiosError msg response \<Rightarrow>
          (case template
                 [Lit ''Linkd API error in '', Lit methodName, Lit '': '',
                  Val (logged_message msg response),
                  Lit '' (Status: '',
                  Val (js_or (response_status response) (Str ''unknown'')), Lit '')''] of
             Inl t \<Rightarrow> Inl t
           | Inr line \<Rightarrow>
               (let c1 = console_error line c
                in Inr (if response_status response = Num 401 then c1 @ [auth_failed_entry]
                        else c1)))
      | _ \<Rightarrow>
          Inr (console_error
                 [Lit ''Unexpected error in '', Lit methodName, Lit '':'', Caught error] c))"

text \<open>
  A \<^verbatim>\<open>catch\<close> block of the request/response methods: it calls \<open>handleApiError\<close> and returns the
  default; an exception of \<open>handleApiError\<close> leaves the block and rejects the method.
\<close>

definition catch_default ::
  "string \<Rightarrow> 'a \<Rightarrow> thrown \<Rightarrow> console \<Rightarrow> 'a settled \<times> console" where
  "catch_default methodName dflt error c =
     (case handleApiError methodName error c of
        Inl t \<Rightarrow> (RejectedWith t, c)
      | Inr c' \<Rightarrow> (Fulfilled dflt, c'))"

subsection \<open>searchProfiles\<close>

definition empty_result :: LinkdSearchResult where
  "empty_result = \<lparr>sr_profiles = Arr [], sr_totalCount = Num 0, sr_queryExecutionTime = Num 0\<rparr>"

text \<open>
  The object literal built from \<^verbatim>\<open>response.data\<close>; each property read can throw, and
  \<^verbatim>\<open>response.data.results.length\<close> is only evaluated when \<^verbatim>\<open>total_count\<close> is falsy.
\<close>

definition search_result_of :: "jsval \<Rightarrow> thrown + LinkdSearchResult" where
  "search_result_of d =
     (case get_prop d ''results'' of Inl e \<Rightarrow> Inl e
      | Inr results \<Rightarrow>
     (case get_prop d ''total_count'' of Inl e \<Rightarrow> Inl e
      | Inr total_count \<Rightarrow>
     (case (if js_truthy total_count then Inr total_count else get_prop results ''length'') of
        Inl e \<Rightarrow> Inl e
      | Inr count \<Rightarrow>
     (case get_prop d ''execution_time'' of Inl e \<Rightarrow> Inl e
      | Inr execution_time \<Rightarrow>
          Inr \<lparr>sr_profiles = js_or results (Arr []), sr_totalCount = count,
               sr_queryExecutionTime = js_or execution_time (Num 0)\<rparr>))))"

text \<open>The body of the \<^verbatim>\<open>try\<close> block: the exception, or the result, with the console so far.\<close>

definition searchProfiles_try ::
  "LinkdAPI \<Rightarrow> http \<Rightarrow> LinkdSearchOptions \<Rightarrow> (thrown \<times> console) + (LinkdSearchResult \<times> console)" where
  "searchProfiles_try api http options =
     (let c1 = console_log [Lit ''Searching for profiles with query: '', Val (Str (query options))] []
      in case http (search_request api options) of Inl e \<Rightarrow> Inl (e, c1)
         | Inr response \<Rightarrow>
        (case search_result_of (resp_data response) of Inl e \<Rightarrow> Inl (e, c1)
         | Inr result \<Rightarrow>
        (case get_prop (sr_profiles result) ''length'' of Inl e \<Rightarrow> Inl (e, c1)
         | Inr n \<Rightarrow>
        (case template [Lit ''Found '', Val n, Lit '' profiles (total: '',
                        Val (sr_totalCount result), Lit '')''] of Inl e \<Rightarrow> Inl (e, c1)
         | Inr line \<Rightarrow> Inr (result, console_log line c1)))))"

definition searchProfiles ::
  "LinkdAPI \<Rightarrow> http \<Rightarrow> LinkdSearchOptions \<Rightarrow> LinkdSearchResult settled \<times> console" where
  "searchProfiles api http options =
     (case searchProfiles_try api http options of
        Inr (result, c) \<Rightarrow> (Fulfilled result, c)
      | Inl (error, c) \<Rightarrow> catch_default ''searchProfiles'' empty_result error c)"

subsection \<open>findMutualConnections, getProfileDetails, requestIntroduction\<close>

definition mutual_request :: "LinkdAPI \<Rightarrow> string \<Rightarrow> string \<Rightarrow> http_request" where
  "mutual_request api profileId1 profileId2 =
     \<lparr>req_method = GET, req_url = baseUrl @ ''/api/connections/mutual'',
      req_params = obj_put ''profile2'' (Str profileId2) (obj_put ''profile1'' (Str profileId1) []),
      req_body = Undefined, req_headers = auth_headers api, req_timeout = timeout_ms\<rparr>"

definition findMutualConnections_try ::
  "LinkdAPI \<Rightarrow> http \<Rightarrow> string \<Rightarrow> string \<Rightarrow> (thrown \<times> console) + (jsval \<times> console)" where
  "findMutualConnections_try api http profileId1 profileId2 =
     (let c1 = console_log [Lit ''Finding mutual connections between '', Val (Str profileId1),
                            Lit '' and '', Val (Str profileId2)] []
      in case http (mutual_request api profileId1 profileId2) of Inl e \<Rightarrow> Inl (e, c1)
         | Inr response \<Rightarrow>
        (case get_prop (resp_data response) ''connections'' of Inl e \<Rightarrow> Inl (e, c1)
         | Inr found \<Rightarrow>
        (let connections = js_or found (Arr [])
         in case get_prop connections ''length'' of Inl e \<Rightarrow> Inl (e, c1)
            | Inr n \<Rightarrow>
           (case template [Lit ''Found '', Val n, Lit '' mutual connections''] of
              Inl e \<Rightarrow> Inl (e, c1)
            | Inr line \<Rightarrow> Inr (connections, console_log line c1)))))"

definition findMutualConnections ::
  "LinkdAPI \<Rightarrow> http \<Rightarrow> string \<Rightarrow> string \<Rightarrow> jsval settled \<times> console" where
  "findMutualConnections api http profileId1 profileId2 =
     (case findMutualConnections_try api http profileId1 profileId2 of
        Inr (connections, c) \<Rightarrow> (Fulfilled connections, c)
      | Inl (error, c) \<Rightarrow> catch_default ''findMutualConnections'' (Arr []) error c)"

definition profile_request :: "LinkdAPI \<Rightarrow> string \<Rightarrow> http_request" where
  "profile_request api profileId =
     \<lparr>req_method = GET, req_url = baseUrl @ ''/api/profile/'' @ profileId,
      req_params = [], req_body = Undefined,
      req_headers = auth_headers api, req_timeout = timeout_ms\<rparr>"

definition getProfileDetails_try ::
  "LinkdAPI \<Rightarrow> http \<Rightarrow> string \<Rightarrow> (thrown \<times> console) + (jsval \<times> console)" where
  "getProfileDetails_try api http profileId =
     (let c1 = console_log [Lit ''Getting details for profile: '', Val (Str profileId)] []
      in case http (profile_request api profileId) of Inl e \<Rightarrow> Inl (e, c1)
         | Inr response \<Rightarrow>
        (let c2 = console_log [Lit ''Successfully retrieved details for profile: '',
                               Val (Str profileId)] c1
         in case get_prop (resp_data response) ''profile'' of Inl e \<Rightarrow> Inl (e, c2)
            | Inr profile \<Rightarrow> Inr (js_or profile Null, c2)))"

definition getProfileDetails :: "LinkdAPI \<Rightarrow> http \<Rightarrow> string \<Rightarrow> jsval settled \<times> console" where
  "getProfileDetails api http profileId =
     (case getProfileDetails_try api http profileId of
        Inr (profile, c) \<Rightarrow> (Fulfilled profile, c)
      | Inl (error, c) \<Rightarrow> catch_default ''getProfileDetails'' Null error c)"

definition intro_body :: "LinkdIntroRequest \<Rightarrow> jsval" where
  "intro_body request =
     Obj [(''fromId'', Str (fromId request)), (''toId'', Str (toId request)),
          (''message'', Str (intro_message request)), (''context'', Str (intro_context request))]"

definition intro_request :: "LinkdAPI \<Rightarrow> LinkdIntroRequest \<Rightarrow> http_request" where
  "intro_request api request =
     \<lparr>req_method = POST, req_url = baseUrl @ ''/api/introductions/request'',
      req_params = [], req_body = intro_body request,
      req_headers = auth_headers api, req_timeout = timeout_ms\<rparr>"

definition requestIntroduction_try ::
  "LinkdAPI \<Rightarrow> http \<Rightarrow> LinkdIntroRequest \<Rightarrow> (thrown \<times> console) + (jsval \<times> console)" where
  "requestIntroduction_try api http request =
     (let c1 = console_log [Lit ''Requesting introduction from '', Val (Str (fromId request)),
                            Lit '' to '', Val (Str (toId request))] []
      in case http (intro_request api request) of Inl e \<Rightarrow> Inl (e, c1)
         | Inr response \<Rightarrow>
        (let c2 = console_log [Lit ''Introduction request sent successfully''] c1
         in case get_prop (resp_data response) ''success'' of Inl e \<Rightarrow> Inl (e, c2)
            | Inr success \<Rightarrow> Inr (js_or success (Bool False), c2)))"

definition requestIntroduction ::
  "LinkdAPI \<Rightarrow> http \<Rightarrow> LinkdIntroRequest \<Rightarrow> jsval settled \<times> console" where
  "requestIntroduction api http request =
     (case requestIntroduction_try api http request of
        Inr (success, c) \<Rightarrow> (Fulfilled success, c)
      | Inl (error, c) \<Rightarrow> catch_default ''requestIntroduction'' (Bool False) error c)"

section \<open>The streamed search\<close>

text \<open>
  \<^verbatim>\<open>searchProfilesWebSocket\<close> creates a promise and registers five callbacks: the timer's
  and the socket's \<^verbatim>\<open>open\<close>, \<^verbatim>\<open>message\<close>, \<^verbatim>\<open>error\<close> and \<^verbatim>\<open>close\<close> handlers. The state they
  share is the closure's: the \<^verbatim>\<open>profiles\<close> array, \<^verbatim>\<open>totalCount\<close>, \<^verbatim>\<open>startTime\<close>, whether the
  timer is still pending, the promise, and what the client did to the socket (the messages
  it sent, the number of \<^verbatim>\<open>ws.close()\<close> calls). Each callback is a function on this state;
  the environment decides which events happen, in which order.

  The promise settles once: \<^verbatim>\<open>resolve\<close> and \<^verbatim>\<open>reject\<close> do nothing on a settled promise.
  The resolved object holds the \<^verbatim>\<open>profiles\<close> array itself, not a copy, so a resolved
  promise keeps \<^verbatim>\<open>totalCount\<close> and \<^verbatim>\<open>queryExecutionTime\<close> and its profiles are read from
  the state.
\<close>

datatype rejection =
    NewError jsval
  | EmittedError string

datatype promise =
    Pending
  | Resolved jsval rat
  | Rejected rejection

record ws_state =
  profiles :: "jsval list"
  totalCount :: jsval
  startTime :: int
  timer_armed :: bool
  close_calls :: nat
  sent :: "jsval list"
  outcome :: promise
  ws_console :: console

text \<open>
  A frame's text either parses as JSON or \<^verbatim>\<open>JSON.parse\<close> throws a SyntaxError.
\<close>

datatype inbound = Unparseable | Parsed jsval

text \<open>
  The events; a message and the timer's firing carry the clock (\<^verbatim>\<open>Date.now()\<close>, in
  milliseconds) at the moment their callback runs, the socket's \<^verbatim>\<open>error\<close> event carries the
  description of the error object it passes.
\<close>

datatype event =
    EvOpen
  | EvMessage int inbound
  | EvTimeout int
  | EvError string
  | EvClose

definition log_line :: "piece list \<Rightarrow> ws_state \<Rightarrow> ws_state" where
  "log_line ps s = s\<lparr>ws_console := console_log ps (ws_console s)\<rparr>"

definition log_error :: "piece list \<Rightarrow> ws_state \<Rightarrow> ws_state" where
  "log_error ps s = s\<lparr>ws_console := console_error ps (ws_console s)\<rparr>"

definition clearTimeout :: "ws_state \<Rightarrow> ws_state" where
  "clearTimeout s = s\<lparr>timer_armed := False\<rparr>"

definition ws_close :: "ws_state \<Rightarrow> ws_state" where
  "ws_close s = s\<lparr>close_calls := Suc (close_calls s)\<rparr>"

definition ws_send :: "jsval \<Rightarrow> ws_state \<Rightarrow> ws_state" where
  "ws_send m s = s\<lparr>sent := sent s @ [m]\<rparr>"

definition resolve :: "jsval \<Rightarrow> rat \<Rightarrow> ws_state \<Rightarrow> ws_state" where
  "resolve tc t s = (if outcome s = Pending then s\<lparr>outcome := Resolved tc t\<rparr> else s)"

definition reject :: "rejection \<Rightarrow> ws_state \<Rightarrow> ws_state" where
  "reject r s = (if outcome s = Pending then s\<lparr>outcome := Rejected r\<rparr> else s)"

definition elapsed :: "int \<Rightarrow> ws_state \<Rightarrow> rat" where
  "elapsed now s = of_int (now - startTime s) / 1000"

definition wsUrl :: string where
  "wsUrl = (if take 8 baseUrl = ''https://'' then ''wss://'' @ drop 8 baseUrl else baseUrl)
           @ ''/api/search/ws''"

text \<open>The call itself, at time \<open>now\<close>: two log lines, the closure's variables, the timer.\<close>

definition searchProfilesWebSocket :: "LinkdAPI \<Rightarrow> LinkdSearchOptions \<Rightarrow> int \<Rightarrow> ws_state" where
  "searchProfilesWebSocket api options now =
     \<lparr>profiles = [], totalCount = Num 0, startTime = now, timer_armed = True,
      close_calls = 0, sent = [], outcome = Pending,
      ws_console =
        console_log [Lit ''Connecting to WebSocket at: '', Val (Str wsUrl)]
          (console_log [Lit ''Starting WebSocket search with query: '', Val (Str (query options))] [])\<rparr>"

definition query_message :: "LinkdAPI \<Rightarrow> LinkdSearchOptions \<Rightarrow> jsval" where
  "query_message api options =
     Obj [(''type'', Str ''query''),
          (''data'', Obj [(''query'', Str (query options)),
                          (''filters'', (case filters options of None \<Rightarrow> Obj [] | Some f \<Rightarrow> Obj f)),
                          (''limit'', limit_of options),
                          (''include_details'', include_details_of options),
                          (''sort_by'', opt_str (sortBy options)),
                          (''sort_order'', opt_str (sortOrder options))]),
          (''apiKey'', Str (apiKey api))]"

definition on_open :: "LinkdAPI \<Rightarrow> LinkdSearchOptions \<Rightarrow> ws_state \<Rightarrow> ws_state" where
  "on_open api options s =
     ws_send (query_message api options) (log_line [Lit ''WebSocket connection established''] s)"

text \<open>The timer's callback; it runs only if the timer was not cleared before it was due.\<close>

definition on_timeout :: "int \<Rightarrow> ws_state \<Rightarrow> ws_state" where
  "on_timeout now s =
     (let s1 = ws_close (log_error [Lit ''WebSocket search timed out after 30 seconds''] s)
      in resolve (Num (of_nat (length (profiles s1)))) (elapsed now s1) s1)"

text \<open>
  The three branches of the message handler. The arguments of \<^verbatim>\<open>profiles.push\<close> are
  evaluated before anything is pushed; in the \<^verbatim>\<open>error\<close> branch the timer is cleared and
  the socket closed before \<^verbatim>\<open>message.data.message\<close> is read, and \<^verbatim>\<open>new Error(...)\<close> converts
  its argument to a string before \<^verbatim>\<open>reject\<close> is called.
\<close>

definition on_result :: "jsval \<Rightarrow> ws_state \<Rightarrow> (thrown \<times> ws_state) + ws_state" where
  "on_result msg s =
     (case get_prop msg ''data'' of Inl e \<Rightarrow> Inl (e, s)
      | Inr d \<Rightarrow>
     (case get_prop d ''results'' of Inl e \<Rightarrow> Inl (e, s)
      | Inr rs \<Rightarrow>
     (case js_spread rs of Inl e \<Rightarrow> Inl (e, s)
      | Inr items \<Rightarrow>
     (let s1 = s\<lparr>profiles := profiles s @ items\<rparr>
      in case get_prop d ''total_count'' of Inl e \<Rightarrow> Inl (e, s1)
         | Inr tc \<Rightarrow>
             Inr (s1\<lparr>totalCount := js_or tc (Num (of_nat (length (profiles s1))))\<rparr>)))))"

definition on_complete :: "int \<Rightarrow> ws_state \<Rightarrow> ws_state" where
  "on_complete now s =
     (let s1 = ws_close (clearTimeout s);
          executionTime = elapsed now s1;
          s2 = log_line [Lit ''WebSocket search completed in '', Val (Num executionTime),
                         Lit ''s with '', Val (Num (of_nat (length (profiles s1)))),
                         Lit '' results''] s1
      in resolve (totalCount s2) executionTime s2)"

definition on_error_message :: "jsval \<Rightarrow> ws_state \<Rightarrow> (thrown \<times> ws_state) + ws_state" where
  "on_error_message msg s =
     (let s1 = ws_close (clearTimeout s)
      in case get_prop msg ''data'' of Inl e \<Rightarrow> Inl (e, s1)
         | Inr d \<Rightarrow>
        (case get_prop d ''message'' of Inl e \<Rightarrow> Inl (e, s1)
         | Inr m \<Rightarrow>
            (let s2 = log_error [Lit ''WebSocket search error:'', Val m] s1
             in if to_string_throws m then Inl (TypeError, s2)
                else Inr (reject (NewError m) s2))))"

definition on_message_try :: "int \<Rightarrow> inbound \<Rightarrow> ws_state \<Rightarrow> (thrown \<times> ws_state) + ws_state" where
  "on_message_try now raw s =
     (case raw of
        Unparseable \<Rightarrow> Inl (SyntaxError, s)
      | Parsed msg \<Rightarrow>
         (case get_prop msg ''type'' of Inl e \<Rightarrow> Inl (e, s)
          | Inr ty \<Rightarrow>
            (case template [Lit ''Received WebSocket message of type: '', Val ty] of
               Inl e \<Rightarrow> Inl (e, s)
             | Inr line \<Rightarrow>
                (let s1 = log_line line s
                 in if ty = Str ''result'' then on_result msg s1
                    else if ty = Str ''complete'' then Inr (on_complete now s1)
                    else if ty = Str ''error'' then on_error_message msg s1
                    else Inr s1))))"

definition on_message :: "int \<Rightarrow> inbound \<Rightarrow> ws_state \<Rightarrow> ws_state" where
  "on_message now raw s =
     (case on_message_try now raw s of
        Inr s' \<Rightarrow> s'
      | Inl (error, s') \<Rightarrow> log_error [Lit ''Error parsing WebSocket message:'', Caught error] s')"

definition on_error :: "string \<Rightarrow> ws_state \<Rightarrow> ws_state" where
  "on_error error s =
     reject (EmittedError error)
       (log_error [Lit ''WebSocket connection error:'', Lit error] (clearTimeout s))"

definition on_close :: "ws_state \<Rightarrow> ws_state" where
  "on_close s = log_line [Lit ''WebSocket connection closed''] (clearTimeout s)"

text \<open>One event. A cleared timer never fires, and a timer fires once.\<close>

fun step :: "LinkdAPI \<Rightarrow> LinkdSearchOptions \<Rightarrow> ws_state \<Rightarrow> event \<Rightarrow> ws_state" where
  "step api options s EvOpen = on_open api options s"
| "step api options s (EvMessage now raw) = on_message now raw s"
| "step api options s (EvTimeout now) =
     (if timer_armed s then on_timeout now (s\<lparr>timer_armed := False\<rparr>) else s)"
| "step api options s (EvError error) = on_error error s"
| "step api options s EvClose = on_close s"

text \<open>The call at time \<open>t0\<close> followed by the events, in order.\<close>

definition run :: "LinkdAPI \<Rightarrow> LinkdSearchOptions \<Rightarrow> int \<Rightarrow> event list \<Rightarrow> ws_state" where
  "run api options t0 evs = foldl (step api options) (searchProfilesWebSocket api options t0) evs"

text \<open>What the caller's \<^verbatim>\<open>await\<close> observes in a state.\<close>

definition resolved_value :: "ws_state \<Rightarrow> LinkdSearchResult option" where
  "resolved_value s =
     (case outcome s of
        Resolved tc t \<Rightarrow>
          Some \<lparr>sr_profiles = Arr (profiles s), sr_totalCount = tc, sr_queryExecutionTime = Num t\<rparr>
      | _ \<Rightarrow> None)"

definition rejected_with :: "ws_state \<Rightarrow> rejection option" where
  "rejected_with s = (case outcome s of Rejected r \<Rightarrow> Some r | _ \<Rightarrow> None)"

text \<open>
  The outcomes by the callback that produces them: only \<^verbatim>\<open>on_complete\<close> and \<^verbatim>\<open>on_timeout\<close>
  resolve, only \<^verbatim>\<open>on_error_message\<close> rejects with \<^verbatim>\<open>new Error(...)\<close>, and each of the three
  calls \<^verbatim>\<open>ws.close()\<close>; only \<^verbatim>\<open>on_error\<close> rejects with the socket's own error, and it does
  not call \<^verbatim>\<open>ws.close()\<close>.
\<close>

fun closes_channel :: "promise \<Rightarrow> bool" where
  "closes_channel Pending = False"
| "closes_channel (Resolved tc t) = True"
| "closes_channel (Rejected (NewError v)) = True"
| "closes_channel (Rejected (EmittedError e)) = False"

section \<open>Properties of the request/response operations\<close>

lemma obj_get_put_same: "obj_get (obj_put k v kvs) k = v"
  by (simp add: obj_get_def obj_put_def update_conv')

lemma obj_get_put_other: "k' \<noteq> k \<Longrightarrow> obj_get (obj_put k' v kvs) k = obj_get kvs k"
  by (simp add: obj_get_def obj_put_def update_conv')

lemma include_details_of_True: "include_details_of options = Bool True"
  by (cases "includeDetails options") (auto simp: include_details_of_def js_or_def opt_bool_def)

lemma get_prop_throws_TypeError: "get_prop v k = Inl e \<Longrightarrow> e = TypeError"
  by (cases v) auto

lemma template_throws_TypeError: "template ps = Inl e \<Longrightarrow> e = TypeError"
  by (simp add: template_def split: if_splits)

lemma search_result_of_throws_TypeError: "search_result_of d = Inl e \<Longrightarrow> e = TypeError"
  by (auto simp: search_result_of_def split: sum.splits if_splits dest: get_prop_throws_TypeError)

subsection \<open>When handleApiError throws\<close>

lemma response_message_Some:
  "response_message (Some \<lparr>resp_status = st, resp_data = d\<rparr>) = get_prop_opt d ''message''"
  by (simp add: response_message_def get_prop_opt_def)

lemma logged_message_converts:
  "\<not> to_string_throws (response_message response) \<Longrightarrow>
   \<not> to_string_throws (logged_message msg response)"
  by (simp add: logged_message_def js_or_def)

lemma handleApiError_returns:
  assumes "\<forall>msg response. e = AxiosError msg response \<longrightarrow>
             \<not> to_string_throws (logged_message msg response)"
  shows "\<exists>c'. handleApiError m e c = Inr c'"
proof (cases e)
  case (AxiosError msg response)
  with assms have "\<not> to_string_throws (logged_message msg response)" by simp
  moreover have "\<not> to_string_throws (js_or (response_status response) (Str ''unknown''))"
    by (simp add: js_or_def response_status_def split: option.splits)
  ultimately show ?thesis using AxiosError
    by (simp add: handleApiError_def template_def Let_def)
qed (simp_all add: handleApiError_def)

lemma handleApiError_throws:
  "to_string_throws (logged_message msg response) \<Longrightarrow>
   handleApiError m (AxiosError msg response) c = Inl TypeError"
  by (simp add: handleApiError_def template_def)

lemma handleApiError_Inl:
  assumes "handleApiError m e c = Inl t"
  shows "t = TypeError \<and>
         (\<exists>msg response. e = AxiosError msg response \<and>
            to_string_throws (logged_message msg response))"
proof (cases e)
  case (AxiosError msg response)
  have "\<not> to_string_throws (js_or (response_status response) (Str ''unknown''))"
    by (simp add: js_or_def response_status_def split: option.splits)
  with assms AxiosError show ?thesis
    by (auto simp: handleApiError_def template_def Let_def split: if_splits)
qed (insert assms, simp_all add: handleApiError_def)

subsection \<open>The authentication entry of the log\<close>

lemma handleApiError_auth_entry:
  assumes "handleApiError m e c = Inr c'"
  shows "auth_failed_entry \<in> set c' \<longleftrightarrow>
     auth_failed_entry \<in> set c \<or>
     (\<exists>msg d. e = AxiosError msg (Some \<lparr>resp_status = 401, resp_data = d\<rparr>))"
proof (cases e)
  case (AxiosError msg r)
  show ?thesis
  proof (cases r)
    case None
    with AxiosError assms show ?thesis
      by (auto simp: handleApiError_def console_error_def auth_failed_entry_def Let_def
          response_status_def template_def split: if_splits)
  next
    case (Some a)
    obtain st d where "a = \<lparr>resp_status = st, resp_data = d\<rparr>" by (cases a) auto
    with AxiosError Some assms show ?thesis
      by (auto simp: handleApiError_def console_error_def auth_failed_entry_def Let_def
          response_status_def template_def split: if_splits)
  qed
qed (insert assms, auto simp: handleApiError_def console_error_def auth_failed_entry_def)

lemma searchProfiles_try_Inl:
  assumes "searchProfiles_try api http options = Inl (e, c)"
  shows "auth_failed_entry \<notin> set c"
    and "http (search_request api options) = Inl e \<or> e = TypeError"
  using assms
  by (auto simp: searchProfiles_try_def Let_def console_log_def auth_failed_entry_def
      split: sum.splits
      dest: get_prop_throws_TypeError search_result_of_throws_TypeError template_throws_TypeError)

lemma searchProfiles_try_Inr:
  "searchProfiles_try api http options = Inr (r, c) \<Longrightarrow> auth_failed_entry \<notin> set c"
  by (auto simp: searchProfiles_try_def Let_def console_log_def auth_failed_entry_def
      split: sum.splits)

lemma auth_entry_only_on_401:
  assumes "auth_failed_entry \<in> set (snd (searchProfiles api http options))"
  shows "\<exists>msg d. http (search_request api options) =
           Inl (AxiosError msg (Some \<lparr>resp_status = 401, resp_data = d\<rparr>))"
proof (cases "searchProfiles_try api http options")
  case (Inl a)
  obtain e c where a: "a = (e, c)" by (cases a)
  note no = searchProfiles_try_Inl(1)[OF Inl[unfolded a]]
  show ?thesis
  proof (cases "handleApiError ''searchProfiles'' e c")
    case t: (Inl t)
    with assms Inl a no show ?thesis
      by (simp add: searchProfiles_def catch_default_def)
  next
    case r: (Inr c')
    with assms Inl a have "auth_failed_entry \<in> set c'"
      by (simp add: searchProfiles_def catch_default_def)
    with handleApiError_auth_entry[OF r] no
    obtain msg d where e: "e = AxiosError msg (Some \<lparr>resp_status = 401, resp_data = d\<rparr>)"
      by auto
    with searchProfiles_try_Inl(2)[OF Inl[unfolded a]] show ?thesis by auto
  qed
next
  case (Inr b)
  obtain r c where b: "b = (r, c)" by (cases b)
  with assms Inr searchProfiles_try_Inr[OF Inr[unfolded b]] show ?thesis
    by (simp add: searchProfiles_def)
qed

text \<open>
  Claim C6, as stated, fails: the error body of a 401 can make \<open>handleApiError\<close> throw
  inside the \<^verbatim>\<open>catch\<close> block. With the body \<^verbatim>\<open>{"message": {"toString": 1}}\<close> the template of
  the first log line throws a TypeError, \<^verbatim>\<open>searchProfiles\<close> rejects with it, and the
  console holds only the line logged before the call: no authentication entry.
\<close>

theorem unauthorized_search_counterexample:
  "searchProfiles \<lparr>apiKey = ''bad''\<rparr>
     (\<lambda>r. Inl (AxiosError ''Request failed with status code 401''
            (Some \<lparr>resp_status = 401,
                   resp_data = Obj [(''message'', Obj [(''toString'', Num 1)])]\<rparr>)))
     \<lparr>query = ''ucla'', filters = None, maxResults = None, includeDetails = None,
      sortBy = None, sortOrder = None\<rparr>
   = (RejectedWith TypeError,
      [(LOG, [Lit ''Searching for profiles with query: '', Val (Str ''ucla'')])])"
  by (simp add: searchProfiles_def searchProfiles_try_def catch_default_def handleApiError_def
      template_def logged_message_def response_message_def get_prop_opt_def obj_get_def
      js_or_def console_log_def)

text \<open>
  Claim C6, amended. When the HTTP call of \<^verbatim>\<open>searchProfiles\<close> fails with a response of
  status 401 whose body's \<^verbatim>\<open>message\<close> converts to a string without throwing (it is absent,
  or a string as \<^verbatim>\<open>LinkdErrorResponse\<close> declares it, or any value but an object with an own
  \<^verbatim>\<open>toString\<close> property or an array holding one), the method does not throw: it is
  fulfilled with the empty result (no profiles, totalCount 0, queryExecutionTime 0), and
  the console holds the entry ``Linkd API authentication failed. Check your API key.''.
  The entry is distinct: for the same query, no outcome of the HTTP call other than a 401
  failure puts it on the console.
\<close>

theorem unauthorized_search_returns_empty_and_logs:
  assumes "http (search_request api options) =
             Inl (AxiosError msg (Some \<lparr>resp_status = 401, resp_data = d\<rparr>))"
    and "\<not> to_string_throws (get_prop_opt d ''message'')"
  shows "fst (searchProfiles api http options) = Fulfilled empty_result \<and>
         auth_failed_entry \<in> set (snd (searchProfiles api http options)) \<and>
         (\<forall>http'. auth_failed_entry \<in> set (snd (searchProfiles api http' options)) \<longrightarrow>
            (\<exists>msg' d'. http' (search_request api options) =
               Inl (AxiosError msg' (Some \<lparr>resp_status = 401, resp_data = d'\<rparr>))))"
proof -
  let ?e = "AxiosError msg (Some \<lparr>resp_status = 401, resp_data = d\<rparr>)"
  let ?c = "console_log [Lit ''Searching for profiles with query: '', Val (Str (query options))] []"
  from assms(1) have t: "searchProfiles_try api http options = Inl (?e, ?c)"
    by (simp add: searchProfiles_try_def)
  from assms(2) have "\<not> to_string_throws
      (logged_message msg (Some \<lparr>resp_status = 401, resp_data = d\<rparr>))"
    by (intro logged_message_converts) (simp add: response_message_Some)
  then obtain c' where h: "handleApiError ''searchProfiles'' ?e ?c = Inr c'"
    using handleApiError_returns[of ?e "''searchProfiles''" ?c] by auto
  have "fst (searchProfiles api http options) = Fulfilled empty_result"
    by (simp add: searchProfiles_def t catch_default_def h)
  moreover have "auth_failed_entry \<in> set (snd (searchProfiles api http options))"
    using handleApiError_auth_entry[OF h]
    by (simp add: searchProfiles_def t catch_default_def h)
  ultimately show ?thesis using auth_entry_only_on_401 by blast
qed

text \<open>
  The theorem at a rejected key: the result and the whole console, the authentication
  entry last.
\<close>

theorem unauthorized_search_witness:
  "fst (searchProfiles \<lparr>apiKey = ''bad''\<rparr>
         (\<lambda>r. Inl (AxiosError ''Request failed with status code 401''
                (Some \<lparr>resp_status = 401, resp_data = Obj [(''message'', Str ''Invalid API key'')]\<rparr>)))
         \<lparr>query = ''ucla'', filters = None, maxResults = None, includeDetails = None,
          sortBy = None, sortOrder = None\<rparr>)
     = Fulfilled \<lparr>sr_profiles = Arr [], sr_totalCount = Num 0, sr_queryExecutionTime = Num 0\<rparr> \<and>
   snd (searchProfiles \<lparr>apiKey = ''bad''\<rparr>
         (\<lambda>r. Inl (AxiosError ''Request failed with status code 401''
                (Some \<lparr>resp_status = 401, resp_data = Obj [(''message'', Str ''Invalid API key'')]\<rparr>)))
         \<lparr>query = ''ucla'', filters = None, maxResults = None, includeDetails = None,
          sortBy = None, sortOrder = None\<rparr>)
     = [(LOG, [Lit ''Searching for profiles with query: '', Val (Str ''ucla'')]),
        (ERROR, [Lit ''Linkd API error in '', Lit ''searchProfiles'', Lit '': '',
                 Val (Str ''Invalid API key''), Lit '' (Status: '', Val (Num 401), Lit '')'']),
        (ERROR, [Lit ''Linkd API authentication failed. Check your API key.''])]"
proof -
  let ?d = "Obj [(''message'', Str ''Invalid API key'')]"
  let ?http = "\<lambda>r::http_request. (Inl (AxiosError ''Request failed with status code 401''
                (Some \<lparr>resp_status = 401, resp_data = ?d\<rparr>)) :: thrown + http_response)"
  let ?o = "\<lparr>query = ''ucla'', filters = None, maxResults = None, includeDetails = None,
          sortBy = None, sortOrder = None\<rparr>"
  have h: "?http (search_request \<lparr>apiKey = ''bad''\<rparr> ?o) =
      Inl (AxiosError ''Request failed with status code 401''
        (Some \<lparr>resp_status = 401, resp_data = ?d\<rparr>))"
    by simp
  have p: "\<not> to_string_throws (get_prop_opt ?d ''message'')"
    by (simp add: get_prop_opt_def obj_get_def)
  from unauthorized_search_returns_empty_and_logs[OF h p]
  have "fst (searchProfiles \<lparr>apiKey = ''bad''\<rparr> ?http ?o) = Fulfilled empty_result" by blast
  moreover have "snd (searchProfiles \<lparr>apiKey = ''bad''\<rparr> ?http ?o) =
       [(LOG, [Lit ''Searching for profiles with query: '', Val (Str ''ucla'')]),
        (ERROR, [Lit ''Linkd API error in '', Lit ''searchProfiles'', Lit '': '',
                 Val (Str ''Invalid API key''), Lit '' (Status: '', Val (Num 401), Lit '')'']),
        (ERROR, [Lit ''Linkd API authentication failed. Check your API key.''])]"
    by (simp add: searchProfiles_def searchProfiles_try_def catch_default_def handleApiError_def
        template_def logged_message_def console_log_def
        console_error_def auth_failed_entry_def response_status_def response_message_def
        get_prop_opt_def obj_get_def js_or_def)
  ultimately show ?thesis by (simp add: empty_result_def)
qed

subsection \<open>Safe defaults of the subordinate operations\<close>

lemma catch_default_returns:
  assumes "\<forall>msg response. e = AxiosError msg response \<longrightarrow>
             \<not> to_string_throws (logged_message msg response)"
  shows "fst (catch_default m dflt e c) = Fulfilled dflt"
proof -
  from handleApiError_returns[OF assms] obtain c' where "handleApiError m e c = Inr c'"
    by blast
  then show ?thesis by (simp add: catch_default_def)
qed

lemma findMutualConnections_try_Inl:
  "findMutualConnections_try api http profileId1 profileId2 = Inl (e, c) \<Longrightarrow>
   http (mutual_request api profileId1 profileId2) = Inl e \<or> e = TypeError"
  by (auto simp: findMutualConnections_try_def Let_def split: sum.splits
      dest: get_prop_throws_TypeError template_throws_TypeError)

lemma getProfileDetails_try_Inl:
  "getProfileDetails_try api http profileId = Inl (e, c) \<Longrightarrow>
   http (profile_request api profileId) = Inl e \<or> e = TypeError"
  by (auto simp: getProfileDetails_try_def Let_def split: sum.splits
      dest: get_prop_throws_TypeError)

lemma requestIntroduction_try_Inl:
  "requestIntroduction_try api http request = Inl (e, c) \<Longrightarrow>
   http (intro_request api request) = Inl e \<or> e = TypeError"
  by (auto simp: requestIntroduction_try_def Let_def split: sum.splits
      dest: get_prop_throws_TypeError)

lemma findMutualConnections_fulfilled:
  assumes "\<forall>msg response. http (mutual_request api profileId1 profileId2) = Inl (AxiosError msg response) \<longrightarrow>
             \<not> to_string_throws (logged_message msg response)"
  shows "\<exists>v. fst (findMutualConnections api http profileId1 profileId2) = Fulfilled v"
proof (cases "findMutualConnections_try api http profileId1 profileId2")
  case (Inl a)
  obtain e c where a: "a = (e, c)" by (cases a)
  from findMutualConnections_try_Inl[OF Inl[unfolded a]] assms
  have "\<forall>msg response. e = AxiosError msg response \<longrightarrow>
          \<not> to_string_throws (logged_message msg response)"
    by auto
  from catch_default_returns[OF this, of "''findMutualConnections''" "Arr []" c] Inl a show ?thesis
    by (simp add: findMutualConnections_def)
next
  case (Inr b)
  then show ?thesis by (cases b) (simp add: findMutualConnections_def)
qed

lemma getProfileDetails_fulfilled:
  assumes "\<forall>msg response. http (profile_request api profileId) = Inl (AxiosError msg response) \<longrightarrow>
             \<not> to_string_throws (logged_message msg response)"
  shows "\<exists>v. fst (getProfileDetails api http profileId) = Fulfilled v"
proof (cases "getProfileDetails_try api http profileId")
  case (Inl a)
  obtain e c where a: "a = (e, c)" by (cases a)
  from getProfileDetails_try_Inl[OF Inl[unfolded a]] assms
  have "\<forall>msg response. e = AxiosError msg response \<longrightarrow>
          \<not> to_string_throws (logged_message msg response)"
    by auto
  from catch_default_returns[OF this, of "''getProfileDetails''" "Null" c] Inl a show ?thesis
    by (simp add: getProfileDetails_def)
next
  case (Inr b)
  then show ?thesis by (cases b) (simp add: getProfileDetails_def)
qed

lemma requestIntroduction_fulfilled:
  assumes "\<forall>msg response. http (intro_request api request) = Inl (AxiosError msg response) \<longrightarrow>
             \<not> to_string_throws (logged_message msg response)"
  shows "\<exists>v. fst (requestIntroduction api http request) = Fulfilled v"
proof (cases "requestIntroduction_try api http request")
  case (Inl a)
  obtain e c where a: "a = (e, c)" by (cases a)
  from requestIntroduction_try_Inl[OF Inl[unfolded a]] assms
  have "\<forall>msg response. e = AxiosError msg response \<longrightarrow>
          \<not> to_string_throws (logged_message msg response)"
    by auto
  from catch_default_returns[OF this, of "''requestIntroduction''" "Bool False" c] Inl a show ?thesis
    by (simp add: requestIntroduction_def)
next
  case (Inr b)
  then show ?thesis by (cases b) (simp add: requestIntroduction_def)
qed

text \<open>
  Claim C8, as stated, fails: when the failure of the HTTP call carries a response body
  whose \<^verbatim>\<open>message\<close> does not convert to a string, here \<^verbatim>\<open>{"message": {"toString": 1}}\<close>,
  \<open>handleApiError\<close> throws inside the \<^verbatim>\<open>catch\<close> block and each of the three operations
  rejects with the TypeError instead of returning its default.
\<close>

theorem subordinate_operations_counterexample:
  "fst (findMutualConnections \<lparr>apiKey = ''k''\<rparr>
          (\<lambda>r. Inl (AxiosError ''Request failed with status code 500''
                 (Some \<lparr>resp_status = 500,
                        resp_data = Obj [(''message'', Obj [(''toString'', Num 1)])]\<rparr>)))
          ''p1'' ''p2'') = RejectedWith TypeError \<and>
   fst (getProfileDetails \<lparr>apiKey = ''k''\<rparr>
          (\<lambda>r. Inl (AxiosError ''Request failed with status code 500''
                 (Some \<lparr>resp_status = 500,
                        resp_data = Obj [(''message'', Obj [(''toString'', Num 1)])]\<rparr>)))
          ''p1'') = RejectedWith TypeError \<and>
   fst (requestIntroduction \<lparr>apiKey = ''k''\<rparr>
          (\<lambda>r. Inl (AxiosError ''Request failed with status code 500''
                 (Some \<lparr>resp_status = 500,
                        resp_data = Obj [(''message'', Obj [(''toString'', Num 1)])]\<rparr>)))
          \<lparr>fromId = ''p1'', toId = ''p2'', intro_message = ''hello'', intro_context = ''class''\<rparr>)
      = RejectedWith TypeError"
  by (simp add: findMutualConnections_def findMutualConnections_try_def getProfileDetails_def
      getProfileDetails_try_def requestIntroduction_def requestIntroduction_try_def
      catch_default_def handleApiError_def template_def logged_message_def
      response_message_def get_prop_opt_def obj_get_def js_or_def)

text \<open>
  Claim C8, amended. Whatever the inputs, when the one HTTP call of a subordinate
  operation fails (throws \<open>e\<close>) and \<open>e\<close> is not an HTTP error whose response body's
  \<^verbatim>\<open>message\<close> fails to convert to a string (\<^verbatim>\<open>LinkdErrorResponse\<close> declares the message a
  string), \<^verbatim>\<open>findMutualConnections\<close> is fulfilled with the empty list, \<^verbatim>\<open>getProfileDetails\<close>
  with null and \<^verbatim>\<open>requestIntroduction\<close> with false. And whatever the HTTP call does,
  failure or response, an operation whose call does not fail with such an error does
  not reject.
\<close>

theorem subordinate_operations_safe_defaults:
  "(http (mutual_request api profileId1 profileId2) = Inl e \<and>
    (\<forall>msg response. e = AxiosError msg response \<longrightarrow>
       \<not> to_string_throws (logged_message msg response)) \<longrightarrow>
      fst (findMutualConnections api http profileId1 profileId2) = Fulfilled (Arr [])) \<and>
   (http (profile_request api profileId) = Inl e \<and>
    (\<forall>msg response. e = AxiosError msg response \<longrightarrow>
       \<not> to_string_throws (logged_message msg response)) \<longrightarrow>
      fst (getProfileDetails api http profileId) = Fulfilled Null) \<and>
   (http (intro_request api request) = Inl e \<and>
    (\<forall>msg response. e = AxiosError msg response \<longrightarrow>
       \<not> to_string_throws (logged_message msg response)) \<longrightarrow>
      fst (requestIntroduction api http request) = Fulfilled (Bool False)) \<and>
   ((\<forall>msg response. http (mutual_request api profileId1 profileId2) =
        Inl (AxiosError msg response) \<longrightarrow> \<not> to_string_throws (logged_message msg response)) \<longrightarrow>
      (\<exists>v. fst (findMutualConnections api http profileId1 profileId2) = Fulfilled v)) \<and>
   ((\<forall>msg response. http (profile_request api profileId) =
        Inl (AxiosError msg response) \<longrightarrow> \<not> to_string_throws (logged_message msg response)) \<longrightarrow>
      (\<exists>v. fst (getProfileDetails api http profileId) = Fulfilled v)) \<and>
   ((\<forall>msg response. http (intro_request api request) =
        Inl (AxiosError msg response) \<longrightarrow> \<not> to_string_throws (logged_message msg response)) \<longrightarrow>
      (\<exists>v. fst (requestIntroduction api http request) = Fulfilled v))"
proof (intro conjI impI)
  assume a: "http (mutual_request api profileId1 profileId2) = Inl e \<and>
    (\<forall>msg response. e = AxiosError msg response \<longrightarrow>
       \<not> to_string_throws (logged_message msg response))"
  then have "findMutualConnections_try api http profileId1 profileId2 =
      Inl (e, console_log [Lit ''Finding mutual connections between '', Val (Str profileId1),
                            Lit '' and '', Val (Str profileId2)] [])"
    by (simp add: findMutualConnections_try_def)
  with a show "fst (findMutualConnections api http profileId1 profileId2) = Fulfilled (Arr [])"
    by (simp add: findMutualConnections_def catch_default_returns)
next
  assume a: "http (profile_request api profileId) = Inl e \<and>
    (\<forall>msg response. e = AxiosError msg response \<longrightarrow>
       \<not> to_string_throws (logged_message msg response))"
  then have "getProfileDetails_try api http profileId =
      Inl (e, console_log [Lit ''Getting details for profile: '', Val (Str profileId)] [])"
    by (simp add: getProfileDetails_try_def)
  with a show "fst (getProfileDetails api http profileId) = Fulfilled Null"
    by (simp add: getProfileDetails_def catch_default_returns)
next
  assume a: "http (intro_request api request) = Inl e \<and>
    (\<forall>msg response. e = AxiosError msg response \<longrightarrow>
       \<not> to_string_throws (logged_message msg response))"
  then have "requestIntroduction_try api http request =
      Inl (e, console_log [Lit ''Requesting introduction from '', Val (Str (fromId request)),
                            Lit '' to '', Val (Str (toId request))] [])"
    by (simp add: requestIntroduction_try_def)
  with a show "fst (requestIntroduction api http request) = Fulfilled (Bool False)"
    by (simp add: requestIntroduction_def catch_default_returns)
next
  assume "\<forall>msg response. http (mutual_request api profileId1 profileId2) =
        Inl (AxiosError msg response) \<longrightarrow> \<not> to_string_throws (logged_message msg response)"
  then show "\<exists>v. fst (findMutualConnections api http profileId1 profileId2) = Fulfilled v"
    by (rule findMutualConnections_fulfilled)
next
  assume "\<forall>msg response. http (profile_request api profileId) =
        Inl (AxiosError msg response) \<longrightarrow> \<not> to_string_throws (logged_message msg response)"
  then show "\<exists>v. fst (getProfileDetails api http profileId) = Fulfilled v"
    by (rule getProfileDetails_fulfilled)
next
  assume "\<forall>msg response. http (intro_request api request) =
        Inl (AxiosError msg response) \<longrightarrow> \<not> to_string_throws (logged_message msg response)"
  then show "\<exists>v. fst (requestIntroduction api http request) = Fulfilled v"
    by (rule requestIntroduction_fulfilled)
qed

text \<open>The theorem when every call times out before a response.\<close>

theorem subordinate_operations_witness:
  "fst (findMutualConnections \<lparr>apiKey = ''k''\<rparr>
          (\<lambda>r. Inl (AxiosError ''timeout of 30000ms exceeded'' None)) ''p1'' ''p2'')
      = Fulfilled (Arr []) \<and>
   fst (getProfileDetails \<lparr>apiKey = ''k''\<rparr>
          (\<lambda>r. Inl (AxiosError ''timeout of 30000ms exceeded'' None)) ''p1'')
      = Fulfilled Null \<and>
   fst (requestIntroduction \<lparr>apiKey = ''k''\<rparr>
          (\<lambda>r. Inl (AxiosError ''timeout of 30000ms exceeded'' None))
          \<lparr>fromId = ''p1'', toId = ''p2'', intro_message = ''hello'', intro_context = ''class''\<rparr>)
      = Fulfilled (Bool False)"
proof -
  have p: "\<forall>msg response. AxiosError ''timeout of 30000ms exceeded'' None = AxiosError msg response
      \<longrightarrow> \<not> to_string_throws (logged_message msg response)"
    by (simp add: logged_message_def response_message_def js_or_def)
  from subordinate_operations_safe_defaults
     [of "\<lambda>r. Inl (AxiosError ''timeout of 30000ms exceeded'' None)" "\<lparr>apiKey = ''k''\<rparr>"
         "''p1''" "''p2''" "AxiosError ''timeout of 30000ms exceeded'' None" "''p1''"
         "\<lparr>fromId = ''p1'', toId = ''p2'', intro_message = ''hello'', intro_context = ''class''\<rparr>"]
    p
  show ?thesis by simp
qed

subsection \<open>What searchProfiles returns on a response\<close>

lemma limit_of_cases:
  "limit_of options =
     (case maxResults options of None \<Rightarrow> Num 10 | Some r \<Rightarrow> if r = 0 then Num 10 else Num r)"
  by (simp add: limit_of_def js_or_def opt_num_def split: option.splits)

lemma searchProfiles_on_response:
  assumes "http (search_request api options) = Inr response"
    and "get_prop (resp_data response) ''results'' = Inr (Arr ps)"
    and "get_prop (resp_data response) ''total_count'' = Inr tc"
    and "get_prop (resp_data response) ''execution_time'' = Inr et"
    and "\<not> to_string_throws tc"
  shows "fst (searchProfiles api http options) =
           Fulfilled \<lparr>sr_profiles = Arr ps,
                      sr_totalCount = (if js_truthy tc then tc else Num (of_nat (length ps))),
                      sr_queryExecutionTime = js_or et (Num 0)\<rparr>"
proof -
  from assms have "search_result_of (resp_data response) =
      Inr \<lparr>sr_profiles = Arr ps,
           sr_totalCount = (if js_truthy tc then tc else Num (of_nat (length ps))),
           sr_queryExecutionTime = js_or et (Num 0)\<rparr>"
    by (simp add: search_result_of_def js_or_def)
  with assms show ?thesis
    by (simp add: searchProfiles_def searchProfiles_try_def template_def)
qed

text \<open>
  Claim C1, as stated, fails: the client neither truncates the server's \<^verbatim>\<open>results\<close> nor
  compares \<^verbatim>\<open>total_count\<close> with them. With \<^verbatim>\<open>maxResults: 2\<close> and a response of three results
  and \<^verbatim>\<open>total_count: 1\<close>, the result has three profiles (more than 2) and totalCount 1
  (less than 3).
\<close>

theorem searchProfiles_bounds_counterexample:
  "fst (searchProfiles \<lparr>apiKey = ''k''\<rparr>
         (\<lambda>r. Inr \<lparr>resp_status = 200,
                    resp_data = Obj [(''results'', Arr [Obj [(''id'', Str ''a'')],
                                                     Obj [(''id'', Str ''b'')],
                                                     Obj [(''id'', Str ''c'')]]),
                                     (''total_count'', Num 1)]\<rparr>)
         \<lparr>query = ''ucla'', filters = None, maxResults = Some 2, includeDetails = None,
          sortBy = None, sortOrder = None\<rparr>)
     = Fulfilled \<lparr>sr_profiles = Arr [Obj [(''id'', Str ''a'')], Obj [(''id'', Str ''b'')],
                                    Obj [(''id'', Str ''c'')]],
                  sr_totalCount = Num 1, sr_queryExecutionTime = Num 0\<rparr> \<and>
   limit_of \<lparr>query = ''ucla'', filters = None, maxResults = Some 2, includeDetails = None,
          sortBy = None, sortOrder = None\<rparr> = Num 2 \<and>
   \<not> (of_nat (length [Obj [(''id'', Str ''a'')], Obj [(''id'', Str ''b'')],
                      Obj [(''id'', Str ''c'')]]) :: rat) \<le> 2 \<and>
   \<not> (of_nat (length [Obj [(''id'', Str ''a'')], Obj [(''id'', Str ''b'')],
                      Obj [(''id'', Str ''c'')]]) :: rat) \<le> 1"
  by (simp add: searchProfiles_def searchProfiles_try_def search_result_of_def obj_get_def
      js_or_def console_log_def limit_of_def opt_num_def template_def)

text \<open>
  Claim C1, amended. The client passes the server's counts through. For every query and
  every response whose \<^verbatim>\<open>results\<close> is an array \<open>ps\<close> and whose \<^verbatim>\<open>total_count\<close> \<open>tc\<close> converts
  to a string (it is logged; every number and an absent value do), \<^verbatim>\<open>searchProfiles\<close> is
  fulfilled with exactly: the profiles \<open>ps\<close> as they came, the totalCount \<open>tc\<close> when it is
  truthy and the number of results when it is absent or 0, and the server's
  \<^verbatim>\<open>execution_time\<close> or 0. So when moreover \<open>ps\<close> has at most \<open>cap\<close> entries, \<open>cap\<close> being
  the limit the client sent (\<^verbatim>\<open>maxResults\<close>, or 10 when that is absent or 0, see
  \<open>limit_of_cases\<close>), and \<open>tc\<close> is absent, 0, or a number not below the number of results,
  the result has at most \<open>cap\<close> profiles and a totalCount not below their number. When the
  call fails with an error that \<open>handleApiError\<close> logs without throwing (any error but an
  HTTP error whose body's \<^verbatim>\<open>message\<close> does not convert to a string), the result is the
  empty one (no profiles, totalCount 0).
\<close>

theorem searchProfiles_passes_server_counts:
  "(http (search_request api options) = Inl e \<and>
    (\<forall>msg response. e = AxiosError msg response \<longrightarrow>
       \<not> to_string_throws (logged_message msg response)) \<longrightarrow>
      fst (searchProfiles api http options) = Fulfilled empty_result) \<and>
   (http (search_request api options) = Inr response \<and>
    get_prop (resp_data response) ''results'' = Inr (Arr ps) \<and>
    get_prop (resp_data response) ''total_count'' = Inr tc \<and>
    get_prop (resp_data response) ''execution_time'' = Inr et \<and>
    \<not> to_string_throws tc \<longrightarrow>
      fst (searchProfiles api http options) =
        Fulfilled \<lparr>sr_profiles = Arr ps,
                   sr_totalCount = (if js_truthy tc then tc else Num (of_nat (length ps))),
                   sr_queryExecutionTime = js_or et (Num 0)\<rparr>) \<and>
   (http (search_request api options) = Inr response \<and>
    get_prop (resp_data response) ''results'' = Inr (Arr ps) \<and>
    get_prop (resp_data response) ''total_count'' = Inr tc \<and>
    limit_of options = Num cap \<and> of_nat (length ps) \<le> cap \<and>
    (tc = Undefined \<or> tc = Num 0 \<or> tc = Num n \<and> of_nat (length ps) \<le> n) \<longrightarrow>
      (\<exists>r m. fst (searchProfiles api http options) = Fulfilled r \<and>
             sr_profiles r = Arr ps \<and> of_nat (length ps) \<le> cap \<and>
             sr_totalCount r = (if js_truthy tc then tc else Num (of_nat (length ps))) \<and>
             sr_totalCount r = Num m \<and> of_nat (length ps) \<le> m))"
proof (intro conjI impI)
  assume a: "http (search_request api options) = Inl e \<and>
    (\<forall>msg response. e = AxiosError msg response \<longrightarrow>
       \<not> to_string_throws (logged_message msg response))"
  then have "searchProfiles_try api http options =
      Inl (e, console_log [Lit ''Searching for profiles with query: '',
                           Val (Str (query options))] [])"
    by (simp add: searchProfiles_try_def)
  with a show "fst (searchProfiles api http options) = Fulfilled empty_result"
    by (simp add: searchProfiles_def catch_default_returns)
next
  assume "http (search_request api options) = Inr response \<and>
    get_prop (resp_data response) ''results'' = Inr (Arr ps) \<and>
    get_prop (resp_data response) ''total_count'' = Inr tc \<and>
    get_prop (resp_data response) ''execution_time'' = Inr et \<and>
    \<not> to_string_throws tc"
  then show "fst (searchProfiles api http options) =
        Fulfilled \<lparr>sr_profiles = Arr ps,
                   sr_totalCount = (if js_truthy tc then tc else Num (of_nat (length ps))),
                   sr_queryExecutionTime = js_or et (Num 0)\<rparr>"
    by (elim conjE) (rule searchProfiles_on_response[of http api options], assumption+)
next
  assume a: "http (search_request api options) = Inr response \<and>
    get_prop (resp_data response) ''results'' = Inr (Arr ps) \<and>
    get_prop (resp_data response) ''total_count'' = Inr tc \<and>
    limit_of options = Num cap \<and> of_nat (length ps) \<le> cap \<and>
    (tc = Undefined \<or> tc = Num 0 \<or> tc = Num n \<and> of_nat (length ps) \<le> n)"
  then obtain kvs where d: "resp_data response = Obj kvs"
    by (cases "resp_data response") (auto split: if_splits)
  then have et: "get_prop (resp_data response) ''execution_time'' =
      Inr (obj_get kvs ''execution_time'')"
    by simp
  from a have conv: "\<not> to_string_throws tc" by auto
  define m where "m = (if js_truthy tc then n else of_nat (length ps))"
  from a have tot: "(if js_truthy tc then tc else Num (of_nat (length ps))) = Num m"
    and le: "of_nat (length ps) \<le> m"
    by (auto simp: m_def)
  from a have h: "http (search_request api options) = Inr response"
    "get_prop (resp_data response) ''results'' = Inr (Arr ps)"
    "get_prop (resp_data response) ''total_count'' = Inr tc"
    by blast+
  have "fst (searchProfiles api http options) =
      Fulfilled \<lparr>sr_profiles = Arr ps,
           sr_totalCount = (if js_truthy tc then tc else Num (of_nat (length ps))),
           sr_queryExecutionTime = js_or (obj_get kvs ''execution_time'') (Num 0)\<rparr>"
    by (rule searchProfiles_on_response[of http api options, OF h et conv])
  with a le tot show "\<exists>r m. fst (searchProfiles api http options) = Fulfilled r \<and>
             sr_profiles r = Arr ps \<and> of_nat (length ps) \<le> cap \<and>
             sr_totalCount r = (if js_truthy tc then tc else Num (of_nat (length ps))) \<and>
             sr_totalCount r = Num m \<and> of_nat (length ps) \<le> m"
    by auto
qed

text \<open>
  The theorem at a call that fails without a response, and at a response of two results
  with \<^verbatim>\<open>total_count: 7\<close> and no \<^verbatim>\<open>execution_time\<close> to a query with \<^verbatim>\<open>maxResults: 5\<close>.
\<close>

theorem searchProfiles_passes_server_counts_witness:
  "fst (searchProfiles \<lparr>apiKey = ''k''\<rparr> (\<lambda>r. Inl (AxiosError ''Network Error'' None))
         \<lparr>query = ''ucla'', filters = None, maxResults = Some 5, includeDetails = None,
          sortBy = None, sortOrder = None\<rparr>) = Fulfilled empty_result \<and>
   fst (searchProfiles \<lparr>apiKey = ''k''\<rparr>
         (\<lambda>r. Inr \<lparr>resp_status = 200,
                    resp_data = Obj [(''results'', Arr [Obj [(''id'', Str ''a'')],
                                                     Obj [(''id'', Str ''b'')]]),
                                     (''total_count'', Num 7)]\<rparr>)
         \<lparr>query = ''ucla'', filters = None, maxResults = Some 5, includeDetails = None,
          sortBy = None, sortOrder = None\<rparr>)
     = Fulfilled \<lparr>sr_profiles = Arr [Obj [(''id'', Str ''a'')], Obj [(''id'', Str ''b'')]],
                  sr_totalCount = Num 7, sr_queryExecutionTime = Num 0\<rparr> \<and>
   (\<exists>r m. fst (searchProfiles \<lparr>apiKey = ''k''\<rparr>
               (\<lambda>r. Inr \<lparr>resp_status = 200,
                    resp_data = Obj [(''results'', Arr [Obj [(''id'', Str ''a'')],
                                                     Obj [(''id'', Str ''b'')]]),
                                     (''total_count'', Num 7)]\<rparr>)
               \<lparr>query = ''ucla'', filters = None, maxResults = Some 5, includeDetails = None,
                sortBy = None, sortOrder = None\<rparr>) = Fulfilled r \<and>
          sr_profiles r = Arr [Obj [(''id'', Str ''a'')], Obj [(''id'', Str ''b'')]] \<and>
          sr_totalCount r = Num m \<and> 2 \<le> m)"
proof -
  let ?a = "\<lparr>apiKey = ''k''\<rparr>"
  let ?o = "\<lparr>query = ''ucla'', filters = None, maxResults = Some 5, includeDetails = None,
          sortBy = None, sortOrder = None\<rparr>"
  let ?e = "AxiosError ''Network Error'' None"
  let ?fail = "\<lambda>r::http_request. (Inl ?e :: thrown + http_response)"
  let ?ps = "[Obj [(''id'', Str ''a'')], Obj [(''id'', Str ''b'')]]"
  let ?resp = "\<lparr>resp_status = 200,
                resp_data = Obj [(''results'', Arr ?ps), (''total_count'', Num 7)]\<rparr>"
  let ?ok = "\<lambda>r::http_request. (Inr ?resp :: thrown + http_response)"
  have p: "\<forall>msg response. ?e = AxiosError msg response \<longrightarrow>
      \<not> to_string_throws (logged_message msg response)"
    by (simp add: logged_message_def response_message_def js_or_def)
  have 1: "fst (searchProfiles ?a ?fail ?o) = Fulfilled empty_result"
    using searchProfiles_passes_server_counts[of ?fail ?a ?o ?e] p by simp
  have 2: "fst (searchProfiles ?a ?ok ?o) =
      Fulfilled \<lparr>sr_profiles = Arr ?ps, sr_totalCount = Num 7, sr_queryExecutionTime = Num 0\<rparr>"
    using searchProfiles_passes_server_counts
      [of ?ok ?a ?o _ ?resp ?ps "Num 7" Undefined]
    by (simp add: obj_get_def js_or_def)
  have 3: "\<exists>r m. fst (searchProfiles ?a ?ok ?o) = Fulfilled r \<and>
          sr_profiles r = Arr ?ps \<and> sr_totalCount r = Num m \<and> 2 \<le> m"
    using searchProfiles_passes_server_counts
      [of ?ok ?a ?o _ ?resp ?ps "Num 7" _ 5 7]
    by (simp add: limit_of_def js_or_def opt_num_def obj_get_def)
  from 1 2 3 show ?thesis by blast
qed

section \<open>Properties of the streamed search\<close>

lemmas handler_defs = on_open_def on_message_def on_message_try_def on_result_def on_complete_def
  on_error_message_def on_error_def on_close_def on_timeout_def resolve_def reject_def
  log_line_def log_error_def clearTimeout_def ws_close_def ws_send_def elapsed_def template_def
  Let_def

lemmas eval_defs = run_def searchProfilesWebSocket_def handler_defs console_log_def
  console_error_def obj_get_def js_or_def resolved_value_def rejected_with_def

lemma run_Nil: "run api options t0 [] = searchProfilesWebSocket api options t0"
  by (simp add: run_def)

lemma run_snoc: "run api options t0 (evs @ [ev]) = step api options (run api options t0 evs) ev"
  by (simp add: run_def)

lemma run_append:
  "run api options t0 (evs @ evs') = foldl (step api options) (run api options t0 evs) evs'"
  by (simp add: run_def)

subsection \<open>The promise settles once; a pending timer means a pending promise\<close>

lemma step_settled: "outcome s \<noteq> Pending \<Longrightarrow> outcome (step api options s ev) = outcome s"
  by (cases ev) (auto simp: handler_defs split: sum.splits inbound.splits prod.splits)

lemma steps_settled:
  "outcome s \<noteq> Pending \<Longrightarrow> outcome (foldl (step api options) s evs) = outcome s"
  by (induction evs arbitrary: s) (simp_all add: step_settled)

lemma step_startTime: "startTime (step api options s ev) = startTime s"
  by (cases ev) (auto simp: handler_defs split: sum.splits inbound.splits prod.splits)

lemma run_startTime: "startTime (run api options t0 evs) = t0"
  by (induction evs rule: rev_induct)
     (simp_all add: run_Nil run_snoc step_startTime searchProfilesWebSocket_def)

lemma step_armed_pending:
  "(timer_armed s \<longrightarrow> outcome s = Pending) \<Longrightarrow>
   (timer_armed (step api options s ev) \<longrightarrow> outcome (step api options s ev) = Pending)"
  by (cases ev) (auto simp: handler_defs split: sum.splits inbound.splits prod.splits)

lemma run_armed_pending:
  "timer_armed (run api options t0 evs) \<Longrightarrow> outcome (run api options t0 evs) = Pending"
proof (induction evs rule: rev_induct)
  case Nil
  then show ?case by (simp add: run_Nil searchProfilesWebSocket_def)
next
  case (snoc ev evs)
  then show ?case using step_armed_pending[of "run api options t0 evs" api options ev]
    by (auto simp: run_snoc)
qed

lemma timeout_fires:
  "timer_armed s \<Longrightarrow> outcome s = Pending \<Longrightarrow>
   resolved_value (step api options s (EvTimeout now)) =
     Some \<lparr>sr_profiles = Arr (profiles s), sr_totalCount = Num (of_nat (length (profiles s))),
           sr_queryExecutionTime = Num (of_int (now - startTime s) / 1000)\<rparr>"
  by (simp add: handler_defs resolved_value_def)

subsection \<open>The query message\<close>

text \<open>
  Claim C9. For every \<^verbatim>\<open>LinkdSearchOptions\<close>, the \<^verbatim>\<open>include_details\<close> parameter of the
  request of \<^verbatim>\<open>searchProfiles\<close> is true, and so is the \<^verbatim>\<open>include_details\<close> field of the
  \<^verbatim>\<open>data\<close> of the query message, which is the message the \<^verbatim>\<open>open\<close> handler sends: also
  when the caller passes \<^verbatim>\<open>includeDetails: false\<close>, and also when the filters carry a key
  \<^verbatim>\<open>include_details\<close>.
\<close>

theorem include_details_always_true:
  "obj_get (req_params (search_request api options)) ''include_details'' = Bool True \<and>
   sent (step api options s EvOpen) = sent s @ [query_message api options] \<and>
   (\<exists>d. get_prop (query_message api options) ''data'' = Inr d \<and>
        get_prop d ''include_details'' = Inr (Bool True))"
proof (intro conjI)
  show "obj_get (req_params (search_request api options)) ''include_details'' = Bool True"
    by (simp add: search_request_def search_params_def obj_get_put_same obj_get_put_other
      include_details_of_True)
  show "sent (step api options s EvOpen) = sent s @ [query_message api options]"
    by (simp add: on_open_def ws_send_def log_line_def)
  show "\<exists>d. get_prop (query_message api options) ''data'' = Inr d \<and>
        get_prop d ''include_details'' = Inr (Bool True)"
    by (simp add: query_message_def obj_get_def include_details_of_True)
qed

text \<open>The theorem for a caller that passes \<^verbatim>\<open>includeDetails: false\<close>.\<close>

theorem include_details_false_witness:
  "obj_get (req_params (search_request \<lparr>apiKey = ''k''\<rparr>
      \<lparr>query = ''ucla'', filters = Some [(''include_details'', Bool False)], maxResults = None,
       includeDetails = Some False, sortBy = None, sortOrder = None\<rparr>)) ''include_details''
     = Bool True \<and>
   (\<exists>d. get_prop (query_message \<lparr>apiKey = ''k''\<rparr>
      \<lparr>query = ''ucla'', filters = Some [(''include_details'', Bool False)], maxResults = None,
       includeDetails = Some False, sortBy = None, sortOrder = None\<rparr>) ''data'' = Inr d \<and>
        get_prop d ''include_details'' = Inr (Bool True))"
  using include_details_always_true
    [of "\<lparr>apiKey = ''k''\<rparr>"
        "\<lparr>query = ''ucla'', filters = Some [(''include_details'', Bool False)], maxResults = None,
       includeDetails = Some False, sortBy = None, sortOrder = None\<rparr>"]
  by blast

subsection \<open>Timeout\<close>

text \<open>
  Claim C10. Whenever the timer fires (it is still pending after the events so far, so
  the search ends by the timeout), the promise resolves with the profiles accumulated so
  far and with totalCount equal to their number: the running total taken from the
  \<^verbatim>\<open>result\<close> messages is not used.
\<close>

theorem timeout_total_is_profile_count:
  assumes "timer_armed (run api options t0 evs)"
  shows "resolved_value (run api options t0 (evs @ [EvTimeout now])) =
     Some \<lparr>sr_profiles = Arr (profiles (run api options t0 evs)),
           sr_totalCount = Num (of_nat (length (profiles (run api options t0 evs)))),
           sr_queryExecutionTime = Num (of_int (now - t0) / 1000)\<rparr>"
  using timeout_fires[OF assms run_armed_pending[OF assms], of api options now]
  by (simp add: run_snoc run_startTime)

text \<open>
  The theorem after one \<^verbatim>\<open>result\<close> message with one profile and \<^verbatim>\<open>total_count: 50\<close>: the
  running total is 50, the resolved totalCount is 1.
\<close>

theorem timeout_total_witness:
  "totalCount (run \<lparr>apiKey = ''k''\<rparr>
      \<lparr>query = ''ucla'', filters = None, maxResults = None, includeDetails = None,
       sortBy = None, sortOrder = None\<rparr> 0
      [EvOpen,
       EvMessage 40 (Parsed (Obj [(''type'', Str ''result''),
          (''data'', Obj [(''results'', Arr [Obj [(''id'', Str ''a'')]]),
                          (''total_count'', Num 50)])]))]) = Num 50 \<and>
   resolved_value (run \<lparr>apiKey = ''k''\<rparr>
      \<lparr>query = ''ucla'', filters = None, maxResults = None, includeDetails = None,
       sortBy = None, sortOrder = None\<rparr> 0
      [EvOpen,
       EvMessage 40 (Parsed (Obj [(''type'', Str ''result''),
          (''data'', Obj [(''results'', Arr [Obj [(''id'', Str ''a'')]]),
                          (''total_count'', Num 50)])])),
       EvTimeout 30000]) =
     Some \<lparr>sr_profiles = Arr [Obj [(''id'', Str ''a'')]], sr_totalCount = Num 1,
           sr_queryExecutionTime = Num 30\<rparr>"
proof -
  let ?evs = "[EvOpen,
       EvMessage 40 (Parsed (Obj [(''type'', Str ''result''),
          (''data'', Obj [(''results'', Arr [Obj [(''id'', Str ''a'')]]),
                          (''total_count'', Num 50)])]))]"
  let ?s = "run \<lparr>apiKey = ''k''\<rparr>
      \<lparr>query = ''ucla'', filters = None, maxResults = None, includeDetails = None,
       sortBy = None, sortOrder = None\<rparr> 0 ?evs"
  have armed: "timer_armed ?s" by (simp add: eval_defs)
  have p: "profiles ?s = [Obj [(''id'', Str ''a'')]]" by (simp add: eval_defs)
  have t: "totalCount ?s = Num 50" by (simp add: eval_defs)
  from timeout_total_is_profile_count[OF armed, of 30000] p t show ?thesis by simp
qed






subsection \<open>Terminal messages\<close>

lemma error_message_step:
  assumes "outcome s = Pending"
    and "get_prop m ''type'' = Inr (Str ''error'')"
    and "get_prop m ''data'' = Inr d"
    and "get_prop d ''message'' = Inr v"
    and "\<not> to_string_throws v"
  shows "outcome (step api options s (EvMessage now (Parsed m))) = Rejected (NewError v)"
  using assms by (simp add: handler_defs)

text \<open>
  What the \<^verbatim>\<open>error\<close> branch does on the messages it is written for. If the promise is
  still pending after the events so far and an \<^verbatim>\<open>error\<close> message arrives whose
  \<^verbatim>\<open>data.message\<close> is the text \<open>txt\<close>, the promise is rejected with \<^verbatim>\<open>new Error(txt)\<close>, an
  error whose message is \<open>txt\<close> unchanged, and whatever events follow, it stays rejected
  with it.
\<close>

lemma error_message_rejects_verbatim:
  assumes "outcome (run api options t0 evs) = Pending"
    and "get_prop m ''type'' = Inr (Str ''error'')"
    and "get_prop m ''data'' = Inr d"
    and "get_prop d ''message'' = Inr (Str txt)"
  shows "rejected_with (run api options t0 (evs @ EvMessage now (Parsed m) # evs')) =
           Some (NewError (Str txt))"
proof -
  have "outcome (run api options t0 (evs @ [EvMessage now (Parsed m)])) =
          Rejected (NewError (Str txt))"
    using error_message_step[OF assms] by (simp add: run_snoc)
  then have "outcome (foldl (step api options)
                 (run api options t0 (evs @ [EvMessage now (Parsed m)])) evs') =
          Rejected (NewError (Str txt))"
    by (simp add: steps_settled)
  then show ?thesis
    using run_append[of api options t0 "evs @ [EvMessage now (Parsed m)]" evs']
    by (simp add: rejected_with_def)
qed

text \<open>
  Claim C5 says that an \<^verbatim>\<open>error\<close> message that arrives before any other terminal event
  rejects the promise with the server's message. The handler does not do so for every
  \<^verbatim>\<open>error\<close> message: on \<^verbatim>\<open>{"type": "error", "data": null}\<close>, the first message of the
  stream, it clears the timer and closes the socket, reading \<^verbatim>\<open>message.data.message\<close>
  throws, the \<^verbatim>\<open>catch\<close> logs the TypeError and \<^verbatim>\<open>reject\<close> is never called. The promise is
  not rejected, then or when the 30 seconds have passed.
\<close>

theorem error_message_null_data_never_rejects:
  "rejected_with (run \<lparr>apiKey = ''k''\<rparr>
      \<lparr>query = ''ucla'', filters = None, maxResults = None, includeDetails = None,
       sortBy = None, sortOrder = None\<rparr> 0
      [EvOpen, EvMessage 40 (Parsed (Obj [(''type'', Str ''error''), (''data'', Null)]))])
     = None \<and>
   outcome (run \<lparr>apiKey = ''k''\<rparr>
      \<lparr>query = ''ucla'', filters = None, maxResults = None, includeDetails = None,
       sortBy = None, sortOrder = None\<rparr> 0
      [EvOpen, EvMessage 40 (Parsed (Obj [(''type'', Str ''error''), (''data'', Null)]))])
     = Pending \<and>
   rejected_with (run \<lparr>apiKey = ''k''\<rparr>
      \<lparr>query = ''ucla'', filters = None, maxResults = None, includeDetails = None,
       sortBy = None, sortOrder = None\<rparr> 0
      [EvOpen, EvMessage 40 (Parsed (Obj [(''type'', Str ''error''), (''data'', Null)])),
       EvTimeout 30000])
     = None \<and>
   outcome (run \<lparr>apiKey = ''k''\<rparr>
      \<lparr>query = ''ucla'', filters = None, maxResults = None, includeDetails = None,
       sortBy = None, sortOrder = None\<rparr> 0
      [EvOpen, EvMessage 40 (Parsed (Obj [(''type'', Str ''error''), (''data'', Null)])),
       EvTimeout 30000])
     = Pending"
  by (simp add: eval_defs)

text \<open>
  Claim C3, as stated, fails when the server supplies a falsy \<^verbatim>\<open>total_count\<close>: with three
  profiles and \<^verbatim>\<open>total_count: 0\<close> in the \<^verbatim>\<open>result\<close> message the promise resolves with
  totalCount 3, not with the supplied 0.
\<close>

theorem zero_total_count_counterexample:
  "resolved_value (run \<lparr>apiKey = ''k''\<rparr>
      \<lparr>query = ''ucla'', filters = None, maxResults = None, includeDetails = None,
       sortBy = None, sortOrder = None\<rparr> 0
      [EvOpen,
       EvMessage 40 (Parsed (Obj [(''type'', Str ''result''),
          (''data'', Obj [(''results'', Arr [Obj [(''id'', Str ''a'')], Obj [(''id'', Str ''b'')],
                                            Obj [(''id'', Str ''c'')]]),
                          (''total_count'', Num 0)])])),
       EvMessage 50 (Parsed (Obj [(''type'', Str ''complete'')]))]) =
     Some \<lparr>sr_profiles = Arr [Obj [(''id'', Str ''a'')], Obj [(''id'', Str ''b'')],
                              Obj [(''id'', Str ''c'')]],
           sr_totalCount = Num 3, sr_queryExecutionTime = Num (1 / 20)\<rparr>"
  by (simp add: eval_defs)

text \<open>
  Claim C3, amended. A streamed search that receives exactly one \<^verbatim>\<open>result\<close> message with
  the three profiles \<open>p1\<close>, \<open>p2\<close>, \<open>p3\<close> and then a \<^verbatim>\<open>complete\<close> message resolves
  with exactly these three profiles, in order, and with totalCount equal to the
  server-supplied \<^verbatim>\<open>total_count\<close> when that is present and truthy (a number other than 0),
  or 3 when it is absent or falsy (0, null, false, the empty string).
\<close>

theorem one_result_then_complete:
  assumes "get_prop m ''type'' = Inr (Str ''result'')"
    and "get_prop m ''data'' = Inr d"
    and "get_prop d ''results'' = Inr (Arr [p1, p2, p3])"
    and "get_prop d ''total_count'' = Inr tc"
    and "get_prop c ''type'' = Inr (Str ''complete'')"
  shows "resolved_value
           (run api options t0 [EvOpen, EvMessage t1 (Parsed m), EvMessage t2 (Parsed c)]) =
         Some \<lparr>sr_profiles = Arr [p1, p2, p3],
               sr_totalCount = (if js_truthy tc then tc else Num 3),
               sr_queryExecutionTime = Num (of_int (t2 - t0) / 1000)\<rparr>"
  using assms
  by (simp add: run_def searchProfilesWebSocket_def handler_defs resolved_value_def js_or_def)

text \<open>The theorem for three profiles and \<^verbatim>\<open>total_count: 57\<close>.\<close>

theorem one_result_then_complete_witness:
  "resolved_value (run \<lparr>apiKey = ''k''\<rparr>
      \<lparr>query = ''ucla'', filters = None, maxResults = None, includeDetails = None,
       sortBy = None, sortOrder = None\<rparr> 0
      [EvOpen,
       EvMessage 40 (Parsed (Obj [(''type'', Str ''result''),
          (''data'', Obj [(''results'', Arr [Obj [(''id'', Str ''a'')], Obj [(''id'', Str ''b'')],
                                            Obj [(''id'', Str ''c'')]]),
                          (''total_count'', Num 57)])])),
       EvMessage 50 (Parsed (Obj [(''type'', Str ''complete'')]))]) =
     Some \<lparr>sr_profiles = Arr [Obj [(''id'', Str ''a'')], Obj [(''id'', Str ''b'')],
                              Obj [(''id'', Str ''c'')]],
           sr_totalCount = Num 57, sr_queryExecutionTime = Num (1 / 20)\<rparr>"
proof -
  let ?d = "Obj [(''results'', Arr [Obj [(''id'', Str ''a'')], Obj [(''id'', Str ''b'')],
                                   Obj [(''id'', Str ''c'')]]),
                 (''total_count'', Num 57)]"
  let ?m = "Obj [(''type'', Str ''result''), (''data'', ?d)]"
  let ?c = "Obj [(''type'', Str ''complete'')]"
  have h1: "get_prop ?m ''type'' = Inr (Str ''result'')" by (simp add: obj_get_def)
  have h2: "get_prop ?m ''data'' = Inr ?d" by (simp add: obj_get_def)
  have h3: "get_prop ?d ''results'' = Inr (Arr [Obj [(''id'', Str ''a'')],
              Obj [(''id'', Str ''b'')], Obj [(''id'', Str ''c'')]])"
    by (simp add: obj_get_def)
  have h4: "get_prop ?d ''total_count'' = Inr (Num 57)" by (simp add: obj_get_def)
  have h5: "get_prop ?c ''type'' = Inr (Str ''complete'')" by (simp add: obj_get_def)
  from one_result_then_complete[OF h1 h2 h3 h4 h5, of "\<lparr>apiKey = ''k''\<rparr>" _ 0 40 50]
  show ?thesis by simp
qed

subsection \<open>Calls of close\<close>

lemma step_closed:
  "(closes_channel (outcome s) \<longrightarrow> 1 \<le> close_calls s) \<Longrightarrow>
   (closes_channel (outcome (step api options s ev)) \<longrightarrow>
      1 \<le> close_calls (step api options s ev))"
  by (cases ev) (auto simp: handler_defs split: sum.splits inbound.splits prod.splits)

lemma run_closed:
  "closes_channel (outcome (run api options t0 evs)) \<longrightarrow>
     1 \<le> close_calls (run api options t0 evs)"
proof (induction evs rule: rev_induct)
  case Nil
  show ?case by (simp add: run_Nil searchProfilesWebSocket_def)
next
  case (snoc ev evs)
  then show ?case using step_closed[of "run api options t0 evs" api options ev]
    by (simp add: run_snoc)
qed

lemma step_settling_closes_once:
  "outcome s = Pending \<Longrightarrow> outcome (step api options s ev) \<noteq> Pending \<Longrightarrow>
   close_calls (step api options s ev) = close_calls s + (case ev of EvError e \<Rightarrow> 0 | _ \<Rightarrow> 1)"
  by (cases ev)
     (auto simp: handler_defs split: sum.splits inbound.splits prod.splits if_splits)

lemma complete_always_closes:
  "get_prop m ''type'' = Inr (Str ''complete'') \<Longrightarrow>
   close_calls (step api options s (EvMessage now (Parsed m))) = Suc (close_calls s)"
  by (simp add: handler_defs)

text \<open>
  Claim C2, as stated, fails in both directions. The socket's \<^verbatim>\<open>error\<close> event rejects the
  promise and the client never calls \<^verbatim>\<open>ws.close()\<close>; and when a \<^verbatim>\<open>complete\<close> message is
  handled after the timeout has resolved the promise, \<^verbatim>\<open>ws.close()\<close> has been called twice.
\<close>

theorem close_exactly_once_counterexample:
  "outcome (run \<lparr>apiKey = ''k''\<rparr>
      \<lparr>query = ''ucla'', filters = None, maxResults = None, includeDetails = None,
       sortBy = None, sortOrder = None\<rparr> 0 [EvOpen, EvError ''socket hang up'']) =
     Rejected (EmittedError ''socket hang up'') \<and>
   close_calls (run \<lparr>apiKey = ''k''\<rparr>
      \<lparr>query = ''ucla'', filters = None, maxResults = None, includeDetails = None,
       sortBy = None, sortOrder = None\<rparr> 0 [EvOpen, EvError ''socket hang up'']) = 0 \<and>
   close_calls (run \<lparr>apiKey = ''k''\<rparr>
      \<lparr>query = ''ucla'', filters = None, maxResults = None, includeDetails = None,
       sortBy = None, sortOrder = None\<rparr> 0
      [EvOpen, EvTimeout 30000,
       EvMessage 30001 (Parsed (Obj [(''type'', Str ''complete'')]))]) = 2"
  by (simp add: eval_defs)

text \<open>
  Claim C2, amended. For every sequence of channel events: once the promise has been
  resolved (by a \<^verbatim>\<open>complete\<close> message or by the timeout) or rejected by an \<^verbatim>\<open>error\<close>
  message, the client has called \<^verbatim>\<open>ws.close()\<close> at least once; and the one handler run that
  settles a pending promise calls \<^verbatim>\<open>ws.close()\<close> exactly once when it is the handler of a
  \<^verbatim>\<open>complete\<close> message, of an \<^verbatim>\<open>error\<close> message or of the timeout, and not at all when it
  is the handler of the socket's \<^verbatim>\<open>error\<close> event.
\<close>

theorem close_called_on_terminal_paths:
  "(closes_channel (outcome (run api options t0 evs)) \<longrightarrow>
      1 \<le> close_calls (run api options t0 evs)) \<and>
   (outcome s = Pending \<and> outcome (step api options s ev) \<noteq> Pending \<longrightarrow>
      close_calls (step api options s ev) =
        close_calls s + (case ev of EvError e \<Rightarrow> 0 | _ \<Rightarrow> 1))"
  using run_closed step_settling_closes_once by blast

text \<open>
  The theorem for a \<^verbatim>\<open>result\<close> message followed by a \<^verbatim>\<open>complete\<close> message: one call of
  \<^verbatim>\<open>ws.close()\<close>, made by the handler of the \<^verbatim>\<open>complete\<close> message.
\<close>

theorem close_called_witness:
  "outcome (run \<lparr>apiKey = ''k''\<rparr>
      \<lparr>query = ''ucla'', filters = None, maxResults = None, includeDetails = None,
       sortBy = None, sortOrder = None\<rparr> 0
      [EvOpen,
       EvMessage 40 (Parsed (Obj [(''type'', Str ''result''),
          (''data'', Obj [(''results'', Arr [Obj [(''id'', Str ''a'')]])])]))]) = Pending \<and>
   close_calls (run \<lparr>apiKey = ''k''\<rparr>
      \<lparr>query = ''ucla'', filters = None, maxResults = None, includeDetails = None,
       sortBy = None, sortOrder = None\<rparr> 0
      [EvOpen,
       EvMessage 40 (Parsed (Obj [(''type'', Str ''result''),
          (''data'', Obj [(''results'', Arr [Obj [(''id'', Str ''a'')]])])]))]) = 0 \<and>
   outcome (run \<lparr>apiKey = ''k''\<rparr>
      \<lparr>query = ''ucla'', filters = None, maxResults = None, includeDetails = None,
       sortBy = None, sortOrder = None\<rparr> 0
      [EvOpen,
       EvMessage 40 (Parsed (Obj [(''type'', Str ''result''),
          (''data'', Obj [(''results'', Arr [Obj [(''id'', Str ''a'')]])])])),
       EvMessage 50 (Parsed (Obj [(''type'', Str ''complete'')]))]) = Resolved (Num 1) (1 / 20) \<and>
   close_calls (run \<lparr>apiKey = ''k''\<rparr>
      \<lparr>query = ''ucla'', filters = None, maxResults = None, includeDetails = None,
       sortBy = None, sortOrder = None\<rparr> 0
      [EvOpen,
       EvMessage 40 (Parsed (Obj [(''type'', Str ''result''),
          (''data'', Obj [(''results'', Arr [Obj [(''id'', Str ''a'')]])])])),
       EvMessage 50 (Parsed (Obj [(''type'', Str ''complete'')]))]) = 1"
proof -
  let ?a = "\<lparr>apiKey = ''k''\<rparr>"
  let ?o = "\<lparr>query = ''ucla'', filters = None, maxResults = None, includeDetails = None,
       sortBy = None, sortOrder = None\<rparr>"
  let ?evs = "[EvOpen,
       EvMessage 40 (Parsed (Obj [(''type'', Str ''result''),
          (''data'', Obj [(''results'', Arr [Obj [(''id'', Str ''a'')]])])]))]"
  let ?ev = "EvMessage 50 (Parsed (Obj [(''type'', Str ''complete'')]))"
  have p: "outcome (run ?a ?o 0 ?evs) = Pending" by (simp add: eval_defs)
  have z: "close_calls (run ?a ?o 0 ?evs) = 0" by (simp add: eval_defs)
  have r: "outcome (run ?a ?o 0 (?evs @ [?ev])) = Resolved (Num 1) (1 / 20)"
    by (simp add: eval_defs)
  from r have r': "outcome (step ?a ?o (run ?a ?o 0 ?evs) ?ev) = Resolved (Num 1) (1 / 20)"
    by (simp only: run_snoc)
  from close_called_on_terminal_paths[of ?a ?o 0 "?evs @ [?ev]" "run ?a ?o 0 ?evs" ?ev] p r r' z
  have "close_calls (step ?a ?o (run ?a ?o 0 ?evs) ?ev) = 1" by simp
  then have "close_calls (run ?a ?o 0 (?evs @ [?ev])) = 1" by (simp only: run_snoc)
  with p z r show ?thesis by simp
qed

subsection \<open>Messages the handler catches\<close>

lemma get_prop_defined: "get_prop v k = Inr x \<Longrightarrow> get_prop v k' \<noteq> Inl e"
  by (cases v) auto

text \<open>
  Whenever the handler's \<^verbatim>\<open>try\<close> block throws, on a text that does not parse or later, the
  \<^verbatim>\<open>catch\<close> logs the exception and the profiles, the running total and the promise are as
  they were before the message.
\<close>

lemma caught_message_keeps_results:
  assumes "on_message_try now raw s = Inl (e, s')"
  shows "profiles (on_message now raw s) = profiles s"
    and "totalCount (on_message now raw s) = totalCount s"
    and "outcome (on_message now raw s) = outcome s"
    and "ws_console (on_message now raw s) =
           ws_console s' @ [(ERROR, [Lit ''Error parsing WebSocket message:'', Caught e])]"
  using assms
  by (auto simp: handler_defs console_error_def dest: get_prop_defined
      split: sum.splits inbound.splits prod.splits if_splits)

lemma unparseable_message_dropped:
  "on_message now Unparseable s =
     s\<lparr>ws_console := ws_console s @
         [(ERROR, [Lit ''Error parsing WebSocket message:'', Caught SyntaxError])]\<rparr>"
  by (simp add: handler_defs console_error_def)

text \<open>
  Unless the message is of type \<^verbatim>\<open>error\<close>, the timer and the socket are untouched as well.
\<close>

lemma caught_message_not_error_keeps_timer:
  assumes "on_message_try now (Parsed m) s = Inl (e, s')"
    and "get_prop m ''type'' \<noteq> Inr (Str ''error'')"
  shows "timer_armed (on_message now (Parsed m) s) = timer_armed s"
    and "close_calls (on_message now (Parsed m) s) = close_calls s"
  using assms
  by (auto simp: handler_defs console_error_def dest: get_prop_defined
      split: sum.splits inbound.splits prod.splits if_splits)

text \<open>
  Claim C7 says that a malformed message is logged and dropped and that the stream
  continues to a terminal state. The handler does not do so for an \<^verbatim>\<open>error\<close> message that
  has no \<^verbatim>\<open>data\<close>: it clears the timer and closes the socket first, then reading
  \<^verbatim>\<open>message.data.message\<close> throws, the \<^verbatim>\<open>catch\<close> logs the TypeError, and \<^verbatim>\<open>reject\<close> is never
  reached. The promise is left pending with no timer: the timeout no longer settles it.
\<close>

theorem error_message_without_data_hangs:
  "outcome (run \<lparr>apiKey = ''k''\<rparr>
      \<lparr>query = ''ucla'', filters = None, maxResults = None, includeDetails = None,
       sortBy = None, sortOrder = None\<rparr> 0
      [EvOpen, EvMessage 40 (Parsed (Obj [(''type'', Str ''error'')]))]) = Pending \<and>
   timer_armed (run \<lparr>apiKey = ''k''\<rparr>
      \<lparr>query = ''ucla'', filters = None, maxResults = None, includeDetails = None,
       sortBy = None, sortOrder = None\<rparr> 0
      [EvOpen, EvMessage 40 (Parsed (Obj [(''type'', Str ''error'')]))]) = False \<and>
   close_calls (run \<lparr>apiKey = ''k''\<rparr>
      \<lparr>query = ''ucla'', filters = None, maxResults = None, includeDetails = None,
       sortBy = None, sortOrder = None\<rparr> 0
      [EvOpen, EvMessage 40 (Parsed (Obj [(''type'', Str ''error'')]))]) = 1 \<and>
   last (ws_console (run \<lparr>apiKey = ''k''\<rparr>
      \<lparr>query = ''ucla'', filters = None, maxResults = None, includeDetails = None,
       sortBy = None, sortOrder = None\<rparr> 0
      [EvOpen, EvMessage 40 (Parsed (Obj [(''type'', Str ''error'')]))])) =
     (ERROR, [Lit ''Error parsing WebSocket message:'', Caught TypeError]) \<and>
   outcome (run \<lparr>apiKey = ''k''\<rparr>
      \<lparr>query = ''ucla'', filters = None, maxResults = None, includeDetails = None,
       sortBy = None, sortOrder = None\<rparr> 0
      [EvOpen, EvMessage 40 (Parsed (Obj [(''type'', Str ''error'')])),
       EvTimeout 30000]) = Pending"
  by (simp add: eval_defs)

end
